theory Spec2Isabelle
  imports Complex_Main "HOL-Library.AList"
begin

section \<open>Values of the program\<close>

text \<open>
  A shallow embedding of \<^verbatim>\<open>src/index.js\<close>, the command line tool that scaffolds
  a Discord bot project.  The script talks to the terminal, the file system, child
  processes and the network; all of these are made explicit here: the mutable outside
  is a record \<open>world\<close> that every operation takes and returns, and what the script
  cannot decide itself (the user's answers, what a child process prints, what
  \<^verbatim>\<open>JSON.parse\<close> makes of a text) is a field of a record \<open>env\<close>.
\<close>

text \<open>
  What \<^verbatim>\<open>JSON.parse\<close> yields and \<^verbatim>\<open>JSON.stringify\<close> consumes.  An object is the
  list of its own properties in property order, every key once.  A number is the value of
  the IEEE double; both zeros are \<open>0\<close>.
\<close>

datatype json =
    JNull
  | JBool bool
  | JNumber real
  | JString string
  | JArray "json list"
  | JObject "(string \<times> json) list"

text \<open>
  What a \<^verbatim>\<open>throw\<close> carries: the script throws the string \<^verbatim>\<open>"Quitting..."\<close>, the
  libraries throw \<^verbatim>\<open>Error\<close> objects (kept by their message).
\<close>

datatype thrown = ThrownString string | ThrownError string

type_synonym path = string

text \<open>
  What stands at a path.  The file system is described as \<^verbatim>\<open>stat\<close> sees it: a
  regular file with its content, or a directory; a symbolic link that resolves is not told
  apart from what it resolves to, and no two paths name the same node.  \<open>DanglingLink\<close>
  is a symbolic link whose target is missing: \<^verbatim>\<open>lstat\<close> finds the link there,
  \<^verbatim>\<open>stat\<close> finds nothing.  Its flag tells whether the directory of the target
  exists, that is whether opening the path for writing creates the target (the path then
  reads as that file) or fails.
\<close>

datatype node = File string | Dir | DanglingLink bool

datatype prompt_type = TextPrompt | ConfirmPrompt | PasswordPrompt

text \<open>
  The outside of the process: the file system as a list of (absolute path, node) with
  every path once (the root directory is there without being listed), the working
  directory, the lines written with \<^verbatim>\<open>console.log\<close>
  and with \<^verbatim>\<open>console.error\<close>, the questions put to the user (type, name, message)
  and the code \<^verbatim>\<open>process.exit\<close> was called with, if it was.
\<close>

record world =
  files :: "(path \<times> node) list"
  cwd :: path
  stdout :: "string list"
  stderr :: "string list"
  asked :: "(prompt_type \<times> string \<times> string) list"
  exited :: "int option"

text \<open>
  An operation that may throw leaves the world as it was when it threw: its result is the
  thrown value or the returned one, together with the world after it.
\<close>

type_synonym 'a result = "(thrown + 'a) \<times> world"

text \<open>
  What the script reads from outside.  An answer is \<open>None\<close> when the user cancelled
  the question (then \<^verbatim>\<open>prompts\<close> resolves to an object without that key and the
  destructured variable is \<^verbatim>\<open>undefined\<close>).  \<open>execSync\<close> runs a shell command in
  the world it is given: it returns what the command printed or throws (a non-zero exit
  status, a missing program), and gives the file system the command leaves behind and the
  lines it wrote to the terminal (its standard error is the script's own).
  \<open>number_text\<close> is \<^verbatim>\<open>Number.prototype.toString\<close> on finite numbers,
  \<open>other_text\<close> the string conversion of a value that is not a string, and
  \<open>inspect_error\<close> what \<^verbatim>\<open>util.inspect\<close> makes of the \<^verbatim>\<open>Error\<close> with a given
  message (its name and message, its stack trace, its properties).
\<close>

record env =
  argv :: "string list"
  appDir :: path
  appPackage :: "(string \<times> json) list"
  answer_name :: "string option"
  answer_update :: "bool option"
  answer_token :: "string option"
  path_resolve :: "path \<Rightarrow> string \<Rightarrow> path"
  execSync :: "string \<Rightarrow> world \<Rightarrow> (thrown + string) \<times> (path \<times> node) list \<times> string list"
  JSON_parse :: "string \<Rightarrow> thrown + json"
  number_text :: "real \<Rightarrow> string"
  other_text :: "json \<Rightarrow> string"
  inspect_error :: "string \<Rightarrow> string"

section \<open>The credential probe\<close>

text \<open>JavaScript's truthiness; \<open>None\<close> is \<^verbatim>\<open>undefined\<close>.\<close>

fun truthy :: "json option \<Rightarrow> bool" where
  "truthy None = False"
| "truthy (Some JNull) = False"
| "truthy (Some (JBool b)) = b"
| "truthy (Some (JNumber r)) = (r \<noteq> 0)"
| "truthy (Some (JString s)) = (s \<noteq> [])"
| "truthy (Some (JArray vs)) = True"
| "truthy (Some (JObject kvs)) = True"

text \<open>
  \<^verbatim>\<open>v.id\<close>: reading a property of \<^verbatim>\<open>null\<close> throws a TypeError; an object has the
  property when it is one of its own (no prototype of a parsed value has an \<^verbatim>\<open>id\<close>);
  a boolean, a number, a string and an array have none.
\<close>

fun get_id :: "json \<Rightarrow> thrown + json option" where
  "get_id JNull = Inl (ThrownError ''TypeError: Cannot read properties of null'')"
| "get_id (JObject kvs) = Inr (map_of kvs ''id'')"
| "get_id v = Inr None"

text \<open>\<^verbatim>\<open>x || null\<close>: \<open>x\<close> itself when it is truthy, \<^verbatim>\<open>null\<close> otherwise.\<close>

fun or_null :: "json option \<Rightarrow> json" where
  "or_null None = JNull"
| "or_null (Some v) = (if truthy (Some v) then v else JNull)"

text \<open>The string a template literal makes of \<^verbatim>\<open>${token}\<close>.\<close>

fun template_text :: "string option \<Rightarrow> string" where
  "template_text None = ''undefined''"
| "template_text (Some s) = s"

definition curl_command :: "string option \<Rightarrow> string" where
  "curl_command token =
     ''curl -s -X GET -H '' @ [CHR 0x22] @ ''Authorization: Bot '' @ template_text token @ [CHR 0x22]
       @ '' '' @ [CHR 0x22] @ ''https://discordapp.com/api/oauth2/applications/@me'' @ [CHR 0x22]"

text \<open>A child process run to its end, as an operation on the world.\<close>

definition exec :: "env \<Rightarrow> string \<Rightarrow> world \<Rightarrow> string result" where
  "exec e cmd w =
     (case execSync e cmd w of
        (r, fs', errs) \<Rightarrow> (r, w\<lparr>files := fs', stderr := stderr w @ errs\<rparr>))"

text \<open>
  The body of the \<^verbatim>\<open>try\<close> block of \<^verbatim>\<open>getApplicationId\<close>: run curl, parse what it
  printed, return \<^verbatim>\<open>parsedResponse.id || null\<close>.
\<close>

definition getApplicationId_try :: "env \<Rightarrow> string option \<Rightarrow> world \<Rightarrow> json result" where
  "getApplicationId_try e token w =
     (case exec e (curl_command token) w of
        (Inl err, w') \<Rightarrow> (Inl err, w')
      | (Inr response, w') \<Rightarrow>
          (case JSON_parse e response of
             Inl err \<Rightarrow> (Inl err, w')
           | Inr parsedResponse \<Rightarrow>
               (case get_id parsedResponse of
                  Inl err \<Rightarrow> (Inl err, w')
                | Inr i \<Rightarrow> (Inr (or_null i), w'))))"

text \<open>\<^verbatim>\<open>try { ... } catch { return null; }\<close>\<close>

definition getApplicationId :: "env \<Rightarrow> string option \<Rightarrow> world \<Rightarrow> json result" where
  "getApplicationId e token w =
     (case getApplicationId_try e token w of
        (Inl err, w') \<Rightarrow> (Inr JNull, w')
      | (Inr v, w') \<Rightarrow> (Inr v, w'))"

section \<open>The file system, the console and the process\<close>

text \<open>
  Paths are POSIX paths, absolute and normalised.  \<open>is_under d p\<close>: \<open>p\<close> is \<open>d\<close> or
  lies in the tree below it.
\<close>

definition is_under :: "path \<Rightarrow> path \<Rightarrow> bool" where
  "is_under d p = (p = d \<or> take (Suc (length d)) p = d @ ''/'')"

definition dirname :: "path \<Rightarrow> path" where
  "dirname p =
     (let d = rev (tl (dropWhile (\<lambda>c. c \<noteq> CHR ''/'') (rev p)))
      in if d = [] then ''/'' else d)"

text \<open>\<^verbatim>\<open>path.join(dir, file)\<close> for a normalised directory and a plain file name.\<close>

definition path_join :: "path \<Rightarrow> string \<Rightarrow> path" where
  "path_join d f = d @ ''/'' @ f"

definition is_dir :: "(path \<times> node) list \<Rightarrow> path \<Rightarrow> bool" where
  "is_dir fs p = (p = ''/'' \<or> map_of fs p = Some Dir)"

text \<open>The content of the regular file at a path, if there is one.\<close>

definition file_content :: "(path \<times> node) list \<Rightarrow> path \<Rightarrow> string option" where
  "file_content fs p = (case map_of fs p of Some (File c) \<Rightarrow> Some c | _ \<Rightarrow> None)"

text \<open>
  \<^verbatim>\<open>lstat\<close> finds something at the path: the root directory, or a listed node, a
  dangling link included.
\<close>

definition entry_at :: "(path \<times> node) list \<Rightarrow> path \<Rightarrow> bool" where
  "entry_at fs p = (p = ''/'' \<or> map_of fs p \<noteq> None)"

text \<open>
  \<^verbatim>\<open>stat\<close> finds something at the path: the root directory, a file or a directory.
  It follows symbolic links, so it finds nothing at a dangling one.
\<close>

definition exists_fs :: "(path \<times> node) list \<Rightarrow> path \<Rightarrow> bool" where
  "exists_fs fs p =
     (p = ''/'' \<or> (case map_of fs p of Some (File c) \<Rightarrow> True | Some Dir \<Rightarrow> True | _ \<Rightarrow> False))"

text \<open>A regular file stands at the path.\<close>

definition is_file :: "(path \<times> node) list \<Rightarrow> path \<Rightarrow> bool" where
  "is_file fs p = (case map_of fs p of Some (File c) \<Rightarrow> True | _ \<Rightarrow> False)"

definition sq :: string where
  "sq = [CHR 0x27]"

definition dq :: string where
  "dq = [CHR 0x22]"

text \<open>
  The error of a system call that does not find the directory of its path:
  \<^verbatim>\<open>ENOTDIR\<close> when a regular file stands there, \<^verbatim>\<open>ENOENT\<close> otherwise.
\<close>

definition no_directory :: "string \<Rightarrow> (path \<times> node) list \<Rightarrow> path \<Rightarrow> thrown" where
  "no_directory call fs p =
     ThrownError ((if is_file fs (dirname p) then ''ENOTDIR: not a directory, ''
                   else ''ENOENT: no such file or directory, '') @ call @ '' '' @ sq @ p @ sq)"

text \<open>\<^verbatim>\<open>fs.existsSync\<close>: whether \<^verbatim>\<open>stat\<close> finds something.\<close>

definition existsSync :: "path \<Rightarrow> world \<Rightarrow> bool" where
  "existsSync p w = exists_fs (files w) p"

text \<open>
  \<^verbatim>\<open>fs.mkdirSync(p)\<close>, not recursive: throws when anything stands at the path, a
  dangling link included, or when its parent is not a directory.
\<close>

definition mkdirSync_fs :: "path \<Rightarrow> (path \<times> node) list \<Rightarrow> thrown option \<times> (path \<times> node) list" where
  "mkdirSync_fs p fs =
     (if entry_at fs p
        then (Some (ThrownError (''EEXIST: file already exists, mkdir '' @ sq @ p @ sq)), fs)
      else if \<not> is_dir fs (dirname p) then (Some (no_directory ''mkdir'' fs p), fs)
      else (None, AList.update p Dir fs))"

text \<open>
  \<^verbatim>\<open>fs.writeFileSync(p, data)\<close>: creates or replaces the file; throws when the path is
  a directory or its parent is not one.  The path is opened through a symbolic link: at
  a dangling link the target is created when its directory exists, and the call throws
  when it does not.
\<close>

definition writeFileSync_fs :: "path \<Rightarrow> string \<Rightarrow> (path \<times> node) list \<Rightarrow> thrown option \<times> (path \<times> node) list" where
  "writeFileSync_fs p data fs =
     (if is_dir fs p
        then (Some (ThrownError (''EISDIR: illegal operation on a directory, open '' @ sq @ p @ sq)), fs)
      else if \<not> is_dir fs (dirname p) then (Some (no_directory ''open'' fs p), fs)
      else if map_of fs p = Some (DanglingLink False)
        then (Some (ThrownError (''ENOENT: no such file or directory, open '' @ sq @ p @ sq)), fs)
      else (None, AList.update p (File data) fs))"

text \<open>
  The directories on the way to a path, outermost first, the path itself last:
  \<open>dirs_of [] ''/a/b'' = [''/a'', ''/a/b'']\<close>.
\<close>

fun dirs_of :: "path \<Rightarrow> string \<Rightarrow> path list" where
  "dirs_of acc [] = (if acc = [] then [] else [acc])"
| "dirs_of acc (c # cs) =
     (if c = CHR ''/'' \<and> acc \<noteq> [] then acc # dirs_of (acc @ [c]) cs
      else dirs_of (acc @ [c]) cs)"

text \<open>
  fs-extra's \<^verbatim>\<open>mkdirsSync\<close>: makes every missing directory on the way; throws at a
  component that is a regular file or a dangling link.
\<close>

fun mkdirs_list :: "path list \<Rightarrow> (path \<times> node) list \<Rightarrow> thrown option \<times> (path \<times> node) list" where
  "mkdirs_list [] fs = (None, fs)"
| "mkdirs_list (d # ds) fs =
     (case map_of fs d of
        None \<Rightarrow> mkdirs_list ds (AList.update d Dir fs)
      | Some Dir \<Rightarrow> mkdirs_list ds fs
      | Some (File c) \<Rightarrow> (Some (ThrownError (''ENOTDIR: not a directory, mkdir '' @ sq @ d @ sq)), fs)
      | Some (DanglingLink b) \<Rightarrow>
          (Some (ThrownError (''EEXIST: file already exists, mkdir '' @ sq @ d @ sq)), fs))"

definition mkdirsSync_fs :: "path \<Rightarrow> (path \<times> node) list \<Rightarrow> thrown option \<times> (path \<times> node) list" where
  "mkdirsSync_fs p fs = mkdirs_list (dirs_of [] p) fs"

text \<open>
  One entry of the source tree copied to its place below the destination (fs-extra 9
  reads both with \<^verbatim>\<open>stat\<close> first, so a dangling link in the source throws).  A
  directory is made unless it is there; on a regular file and on a dangling link it
  throws.  A file replaces a file (\<^verbatim>\<open>overwrite\<close> is on by default); on a directory it
  throws; at a dangling link it is written through the link, as
  \<^verbatim>\<open>fs.writeFileSync\<close> is.
\<close>

definition copy_entry :: "path \<Rightarrow> path \<Rightarrow> path \<times> node \<Rightarrow> (path \<times> node) list \<Rightarrow> thrown option \<times> (path \<times> node) list" where
  "copy_entry src dest e fs =
     (let q = dest @ drop (length src) (fst e) in
      case snd e of
        Dir \<Rightarrow>
          (case map_of fs q of
             None \<Rightarrow> (None, AList.update q Dir fs)
           | Some Dir \<Rightarrow> (None, fs)
           | Some (File c) \<Rightarrow>
               (Some (ThrownError (''Cannot overwrite non-directory '' @ sq @ q @ sq
                                     @ '' with directory '' @ sq @ fst e @ sq @ ''.'')), fs)
           | Some (DanglingLink b) \<Rightarrow>
               (Some (ThrownError (''EEXIST: file already exists, mkdir '' @ sq @ q @ sq)), fs))
      | File c \<Rightarrow>
          (case map_of fs q of
             Some Dir \<Rightarrow>
               (Some (ThrownError (''EISDIR: illegal operation on a directory, unlink '' @ sq @ q @ sq)), fs)
           | Some (DanglingLink False) \<Rightarrow>
               (Some (ThrownError (''ENOENT: no such file or directory, copyfile '' @ sq @ fst e @ sq
                                     @ '' -> '' @ sq @ q @ sq)), fs)
           | _ \<Rightarrow> (None, AList.update q (File c) fs))
      | DanglingLink b \<Rightarrow>
          (Some (ThrownError (''ENOENT: no such file or directory, stat '' @ sq @ fst e @ sq)), fs))"

text \<open>The entries at and below the source, in listing order, until one throws.\<close>

fun copy_entries :: "path \<Rightarrow> path \<Rightarrow> (path \<times> node) list \<Rightarrow> (path \<times> node) list \<Rightarrow> thrown option \<times> (path \<times> node) list" where
  "copy_entries src dest [] fs = (None, fs)"
| "copy_entries src dest (e # es) fs =
     (if is_under src (fst e)
      then (case copy_entry src dest e fs of
              (Some err, fs') \<Rightarrow> (Some err, fs')
            | (None, fs') \<Rightarrow> copy_entries src dest es fs')
      else copy_entries src dest es fs)"

text \<open>A regular file stands on the way to the path: \<^verbatim>\<open>stat\<close> of the path throws
  \<^verbatim>\<open>ENOTDIR\<close>.\<close>

definition file_on_the_way :: "(path \<times> node) list \<Rightarrow> path \<Rightarrow> bool" where
  "file_on_the_way fs p = list_ex (is_file fs) (butlast (dirs_of [] p))"

text \<open>
  fs-extra's \<^verbatim>\<open>copySync(src, dest)\<close> with its default options: \<^verbatim>\<open>stat\<close> must find
  the source and must not fail on the destination for a file on the way to it; the source
  must not be the destination, and a directory is not copied into itself; the
  destination's parent directories are made when missing; then the file, or the whole
  tree, is copied over what is there.
\<close>

definition copySync_fs :: "path \<Rightarrow> path \<Rightarrow> (path \<times> node) list \<Rightarrow> thrown option \<times> (path \<times> node) list" where
  "copySync_fs src dest fs =
     (if \<not> exists_fs fs src
        then (Some (ThrownError (''ENOENT: no such file or directory, stat '' @ sq @ src @ sq)), fs)
      else if file_on_the_way fs dest
        then (Some (ThrownError (''ENOTDIR: not a directory, stat '' @ sq @ dest @ sq)), fs)
      else if src = dest then (Some (ThrownError ''Source and destination must not be the same.''), fs)
      else if is_dir fs src \<and> is_under src dest
        then (Some (ThrownError (''Cannot copy '' @ sq @ src @ sq @ '' to a subdirectory of itself, ''
                                   @ sq @ dest @ sq @ ''.'')), fs)
      else
        (case (if exists_fs fs (dirname dest) then (None, fs) else mkdirsSync_fs (dirname dest) fs) of
           (Some err, fs1) \<Rightarrow> (Some err, fs1)
         | (None, fs1) \<Rightarrow> copy_entries src dest fs fs1))"

text \<open>A file system operation as an operation on the world.\<close>

definition on_files :: "((path \<times> node) list \<Rightarrow> thrown option \<times> (path \<times> node) list) \<Rightarrow> world \<Rightarrow> unit result" where
  "on_files f w =
     (case f (files w) of
        (Some err, fs') \<Rightarrow> (Inl err, w\<lparr>files := fs'\<rparr>)
      | (None, fs') \<Rightarrow> (Inr (), w\<lparr>files := fs'\<rparr>))"

definition mkdirSync :: "path \<Rightarrow> world \<Rightarrow> unit result" where
  "mkdirSync p = on_files (mkdirSync_fs p)"

definition writeFileSync :: "path \<Rightarrow> string \<Rightarrow> world \<Rightarrow> unit result" where
  "writeFileSync p data = on_files (writeFileSync_fs p data)"

definition copySync :: "path \<Rightarrow> path \<Rightarrow> world \<Rightarrow> unit result" where
  "copySync src dest = on_files (copySync_fs src dest)"

text \<open>\<^verbatim>\<open>process.chdir\<close>: throws unless the path is a directory.\<close>

definition chdir :: "path \<Rightarrow> world \<Rightarrow> unit result" where
  "chdir p w =
     (if is_dir (files w) p then (Inr (), w\<lparr>cwd := p\<rparr>)
      else
        (Inl (ThrownError ((if is_file (files w) p then ''ENOTDIR: not a directory, ''
                            else ''ENOENT: no such file or directory, '') @ ''chdir '' @ sq @ p @ sq)), w))"

definition console_log :: "string \<Rightarrow> world \<Rightarrow> world" where
  "console_log s w = w\<lparr>stdout := stdout w @ [s]\<rparr>"

text \<open>
  \<^verbatim>\<open>console.error\<close> of a thrown value: a string is printed as it is, an error as
  \<^verbatim>\<open>util.inspect\<close> shows it.
\<close>

fun thrown_text :: "env \<Rightarrow> thrown \<Rightarrow> string" where
  "thrown_text e (ThrownString s) = s"
| "thrown_text e (ThrownError m) = inspect_error e m"

definition console_error :: "env \<Rightarrow> thrown \<Rightarrow> world \<Rightarrow> world" where
  "console_error e t w = w\<lparr>stderr := stderr w @ [thrown_text e t]\<rparr>"

text \<open>\<^verbatim>\<open>a; b\<close> for two operations that may throw.\<close>

definition and_then :: "(world \<Rightarrow> unit result) \<Rightarrow> (world \<Rightarrow> unit result) \<Rightarrow> world \<Rightarrow> unit result" where
  "and_then a b w =
     (case a w of
        (Inl err, w') \<Rightarrow> (Inl err, w')
      | (Inr u, w') \<Rightarrow> b w')"

section \<open>JSON text\<close>

definition newline :: string where
  "newline = [CHR 0x0A]"

definition hex_digit :: "nat \<Rightarrow> char" where
  "hex_digit n = ''0123456789abcdef'' ! (n mod 16)"

text \<open>
  One character inside a JSON string, as \<^verbatim>\<open>JSON.stringify\<close> writes it: the quote
  and the backslash escaped, the control characters by their short escape or as
  \<^verbatim>\<open>\u00XX\<close>, every other character as it is.
\<close>

definition escape_char :: "char \<Rightarrow> string" where
  "escape_char c =
     (if c = CHR 0x22 then [CHR 0x5C, CHR 0x22]
      else if c = CHR 0x5C then [CHR 0x5C, CHR 0x5C]
      else if c = CHR 0x08 then [CHR 0x5C, CHR ''b'']
      else if c = CHR 0x0C then [CHR 0x5C, CHR ''f'']
      else if c = CHR 0x0A then [CHR 0x5C, CHR ''n'']
      else if c = CHR 0x0D then [CHR 0x5C, CHR ''r'']
      else if c = CHR 0x09 then [CHR 0x5C, CHR ''t'']
      else if (of_char c :: nat) < 0x20
        then [CHR 0x5C, CHR ''u'', CHR ''0'', CHR ''0'', hex_digit (of_char c div 16), hex_digit (of_char c)]
      else [c])"

definition quote :: "string \<Rightarrow> string" where
  "quote s = [CHR 0x22] @ concat (map escape_char s) @ [CHR 0x22]"

fun join :: "string \<Rightarrow> string list \<Rightarrow> string" where
  "join sep [] = []"
| "join sep [x] = x"
| "join sep (x # y # ys) = x @ sep @ join sep (y # ys)"

text \<open>
  \<^verbatim>\<open>JSON.stringify\<close> on a parsed value, with the gap (the indentation unit) and the
  current indentation.  An empty array or object is written without a line break; with
  an empty gap nothing is broken or spaced.
\<close>

fun stringify :: "(real \<Rightarrow> string) \<Rightarrow> string \<Rightarrow> string \<Rightarrow> json \<Rightarrow> string" where
  "stringify nt gap ind JNull = ''null''"
| "stringify nt gap ind (JBool b) = (if b then ''true'' else ''false'')"
| "stringify nt gap ind (JNumber r) = nt r"
| "stringify nt gap ind (JString s) = quote s"
| "stringify nt gap ind (JArray vs) =
     (if vs = [] then ''[]''
      else if gap = [] then ''['' @ join '','' (map (stringify nt gap ind) vs) @ '']''
      else ''['' @ newline @ (ind @ gap)
             @ join ('','' @ newline @ (ind @ gap)) (map (stringify nt gap (ind @ gap)) vs)
             @ newline @ ind @ '']'')"
| "stringify nt gap ind (JObject kvs) =
     (if kvs = [] then ''{}''
      else if gap = []
        then ''{'' @ join '','' (map (\<lambda>kv. quote (fst kv) @ '':'' @ stringify nt gap ind (snd kv)) kvs) @ ''}''
      else ''{'' @ newline @ (ind @ gap)
             @ join ('','' @ newline @ (ind @ gap))
                 (map (\<lambda>kv. quote (fst kv) @ '': '' @ stringify nt gap (ind @ gap) (snd kv)) kvs)
             @ newline @ ind @ ''}'')"

text \<open>\<^verbatim>\<open>JSON.stringify(v, null, space)\<close>: the gap is \<open>space\<close> blanks, ten at most.\<close>

definition JSON_stringify :: "env \<Rightarrow> json \<Rightarrow> nat \<Rightarrow> string" where
  "JSON_stringify e v space = stringify (number_text e) (replicate (min 10 space) CHR '' '') [] v"

section \<open>The steps\<close>

text \<open>
  A step: \<^verbatim>\<open>ignoreDry\<close> is optional (\<open>None\<close> where the step does not set it).
\<close>

record step =
  message :: string
  ignoreDry :: "bool option"
  action :: "world \<Rightarrow> unit result"

text \<open>\<^verbatim>\<open>name\<close> and \<^verbatim>\<open>version\<close> of the tool's own \<^verbatim>\<open>package.json\<close>.\<close>

definition tool_name :: string where
  "tool_name = ''create-discord-bot''"

definition tool_version :: string where
  "tool_version = ''3.10.2''"

definition utilityNameAndVersion :: string where
  "utilityNameAndVersion = tool_name @ '' v'' @ tool_version"

text \<open>The single step of an update.\<close>

definition update_steps :: "env \<Rightarrow> string \<Rightarrow> path \<Rightarrow> step list" where
  "update_steps e name dir =
     [\<lparr>message = ''Updating core files in '' @ sq @ name @ sq @ ''...'',
       ignoreDry = None,
       action = and_then (copySync (appDir e @ ''/src/core'') (dir @ ''/src/core''))
                         (copySync (appDir e @ ''/src/index.js'') (dir @ ''/src/index.js''))\<rparr>]"

text \<open>\<^verbatim>\<open>{ ...appPackage, name, description }\<close>\<close>

definition newPackage :: "env \<Rightarrow> string \<Rightarrow> (string \<times> json) list" where
  "newPackage e name =
     AList.update ''description'' (JString (''Generated by '' @ utilityNameAndVersion @ ''.''))
       (AList.update ''name'' (JString name) (appPackage e))"

text \<open>
  \<^verbatim>\<open>{ token }\<close> as \<^verbatim>\<open>JSON.stringify\<close> sees it: a property whose value is
  \<^verbatim>\<open>undefined\<close> is left out.
\<close>

fun token_object :: "string option \<Rightarrow> json" where
  "token_object None = JObject []"
| "token_object (Some t) = JObject [(''token'', JString t)]"

text \<open>The string a template literal makes of the application id.\<close>

definition id_text :: "env \<Rightarrow> json \<Rightarrow> string" where
  "id_text e v = (case v of JString s \<Rightarrow> s | _ \<Rightarrow> other_text e v)"

definition install_modules :: "env \<Rightarrow> path \<Rightarrow> world \<Rightarrow> unit result" where
  "install_modules e dir w =
     (case chdir dir w of
        (Inl err, w') \<Rightarrow> (Inl err, w')
      | (Inr u, w') \<Rightarrow>
          (case exec e ''npm ci'' w' of
             (Inl err, w'') \<Rightarrow> (Inl err, w'')
           | (Inr out, w'') \<Rightarrow> (Inr (), w'')))"

definition invite_link :: "env \<Rightarrow> string option \<Rightarrow> world \<Rightarrow> unit result" where
  "invite_link e token w =
     (case getApplicationId e token w of
        (Inl err, w') \<Rightarrow> (Inl err, w')
      | (Inr applicationId, w') \<Rightarrow>
          (Inr (),
           console_log
             (if truthy (Some applicationId)
              then ''Invite your bot: https://discordapp.com/oauth2/authorize?scope=bot&client_id=''
                     @ id_text e applicationId
              else ''The given bot token was invalid so no link was generated.'') w'))"

text \<open>The steps of a creation, as the array literal lists them.\<close>

definition create_steps :: "env \<Rightarrow> string \<Rightarrow> path \<Rightarrow> string option \<Rightarrow> step list" where
  "create_steps e name dir token =
     [\<lparr>message = ''Creating directory '' @ sq @ name @ sq @ ''...'',
       ignoreDry = None,
       action = mkdirSync dir\<rparr>,
      \<lparr>message = ''Creating boilerplate...'',
       ignoreDry = None,
       action = and_then (copySync (appDir e) dir)
                  (writeFileSync (path_join dir ''.gitignore'')
                     (''node_modules/'' @ newline @ ''token.json'' @ newline))\<rparr>,
      \<lparr>message = ''Updating package.json...'',
       ignoreDry = None,
       action = writeFileSync (path_join dir ''package.json'')
                  (JSON_stringify e (JObject (newPackage e name)) 2 @ newline)\<rparr>,
      \<lparr>message = ''Writing token.json...'',
       ignoreDry = None,
       action = writeFileSync (path_join dir ''token.json'')
                  (JSON_stringify e (token_object token) 2 @ newline)\<rparr>,
      \<lparr>message = ''Installing modules...'',
       ignoreDry = None,
       action = install_modules e dir\<rparr>,
      \<lparr>message = newline @ ''Generating bot invite link...'',
       ignoreDry = Some True,
       action = invite_link e token\<rparr>]"

section \<open>The run\<close>

text \<open>A question put to the user; the answer comes from the environment.\<close>

definition ask :: "prompt_type \<times> string \<times> string \<Rightarrow> world \<Rightarrow> world" where
  "ask q w = w\<lparr>asked := asked w @ [q]\<rparr>"

text \<open>
  The branch on \<^verbatim>\<open>isUpdate\<close>: an existing path asks for the confirmation, and
  anything but \<^verbatim>\<open>true\<close> prints an empty line and throws \<^verbatim>\<open>"Quitting..."\<close>; a
  path that does not exist asks for the token.
\<close>

definition build_steps :: "env \<Rightarrow> string \<Rightarrow> path \<Rightarrow> world \<Rightarrow> (step list) result" where
  "build_steps e name dir w =
     (if existsSync dir w then
        (let w1 = ask (ConfirmPrompt, ''update'',
                       ''Directory '' @ sq @ dir @ sq @ '' already exists. Do you want to update it?'') w
         in if answer_update e \<noteq> Some True
            then (Inl (ThrownString ''Quitting...''), console_log [] w1)
            else (Inr (update_steps e name dir), w1))
      else
        (let w1 = ask (PasswordPrompt, ''token'', ''Discord bot token?'') w
         in (Inr (create_steps e name dir (answer_token e)), w1)))"

text \<open>
  \<^verbatim>\<open>const [, , ...args] = process.argv; const isDryRun = args[0] === "--dry-run"\<close>
\<close>

definition isDryRun :: "env \<Rightarrow> bool" where
  "isDryRun e = (case drop 2 (argv e) of [] \<Rightarrow> False | a # as \<Rightarrow> a = ''--dry-run'')"

text \<open>
  \<^verbatim>\<open>steps.forEach\<close>: the message is printed, then the action runs if
  \<^verbatim>\<open>ignoreDry || !isDryRun\<close>; an action that throws ends the loop.
\<close>

fun forEach_steps :: "bool \<Rightarrow> step list \<Rightarrow> world \<Rightarrow> unit result" where
  "forEach_steps dry [] w = (Inr (), w)"
| "forEach_steps dry (s # ss) w =
     (let w1 = console_log (message s) w in
      if ignoreDry s = Some True \<or> \<not> dry
      then (case action s w1 of
              (Inl err, w2) \<Rightarrow> (Inl err, w2)
            | (Inr u, w2) \<Rightarrow> forEach_steps dry ss w2)
      else forEach_steps dry ss w1)"

text \<open>
  The callback of \<^verbatim>\<open>.then\<close>.  \<^verbatim>\<open>path.resolve\<close> throws a TypeError on
  \<^verbatim>\<open>undefined\<close>.  At the end \<^verbatim>\<open>process.exit(0)\<close> ends the process.
\<close>

definition done_text :: "string \<Rightarrow> string" where
  "done_text name =
     ''Done!'' @ newline @ newline @ ''Start by running:'' @ newline
       @ [CHR 0x09] @ ''$ cd '' @ name @ ''/'' @ newline @ [CHR 0x09] @ ''$ npm start''"

definition main_then :: "env \<Rightarrow> string option \<Rightarrow> world \<Rightarrow> unit result" where
  "main_then e answer w =
     (case answer of
        None \<Rightarrow>
          (Inl (ThrownError ''TypeError [ERR_INVALID_ARG_TYPE]: The path argument must be of type string. Received undefined''), w)
      | Some name \<Rightarrow>
          (let dir = path_resolve e (cwd w) name in
           case build_steps e name dir w of
             (Inl err, w1) \<Rightarrow> (Inl err, w1)
           | (Inr steps, w1) \<Rightarrow>
               (case forEach_steps (isDryRun e) steps (console_log [] w1) of
                  (Inl err, w2) \<Rightarrow> (Inl err, w2)
                | (Inr u, w2) \<Rightarrow>
                    (Inr (), (console_log (done_text name) (console_log [] w2))\<lparr>exited := Some 0\<rparr>))))"

definition banner :: string where
  "banner =
     ''This utility will walk you through creating a '' @ tool_name @ '' application.'' @ newline @ newline
       @ ''Press ENTER to use the default.'' @ newline
       @ ''Press ^C at any time to quit.'' @ newline @ newline
       @ utilityNameAndVersion"

text \<open>
  The script: the banner, the question for the name, the callback, and
  \<^verbatim>\<open>.catch(console.error)\<close> for whatever the callback throws.
\<close>

definition main :: "env \<Rightarrow> world \<Rightarrow> world" where
  "main e w =
     (case main_then e (answer_name e) (ask (TextPrompt, ''name'', ''Application name?'') (console_log banner w)) of
        (Inl err, w') \<Rightarrow> console_error e err w'
      | (Inr u, w') \<Rightarrow> w')"

text \<open>
  The exit code of the process: the argument of \<^verbatim>\<open>process.exit\<close> when it was
  called; otherwise the process ends when nothing is left to run, with
  \<^verbatim>\<open>process.exitCode\<close>, which the script never sets, so with 0.
\<close>

definition exit_code :: "world \<Rightarrow> int" where
  "exit_code w = (case exited w of Some c \<Rightarrow> c | None \<Rightarrow> 0)"

section \<open>Notions of the specification\<close>

text \<open>
  The result type of the probe in the specification: an application id that is a
  string, or \<^verbatim>\<open>null\<close> (Unavailable).
\<close>

fun string_or_null :: "json \<Rightarrow> bool" where
  "string_or_null JNull = True"
| "string_or_null (JString s) = True"
| "string_or_null v = False"

text \<open>
  The execution policy in the specification's words: for each step in order, its
  message is printed first, then its action is executed only if
  \<^verbatim>\<open>!dryRun || step.ignoreDry\<close>; a failure ends the run.  \<open>step_plan\<close> lists what is
  done for one step, \<open>in_order\<close> does a list of operations one after the other up to the
  first that throws.
\<close>

definition print_message :: "string \<Rightarrow> world \<Rightarrow> unit result" where
  "print_message m w = (Inr (), console_log m w)"

definition step_plan :: "bool \<Rightarrow> step \<Rightarrow> (world \<Rightarrow> unit result) list" where
  "step_plan dryRun s =
     print_message (message s) # (if \<not> dryRun \<or> ignoreDry s = Some True then [action s] else [])"

fun in_order :: "(world \<Rightarrow> unit result) list \<Rightarrow> world \<Rightarrow> unit result" where
  "in_order [] w = (Inr (), w)"
| "in_order (a # as) w =
     (case a w of
        (Inl err, w') \<Rightarrow> (Inl err, w')
      | (Inr u, w') \<Rightarrow> in_order as w')"

text \<open>
  JSON text as RFC 8259 reads it.  \<open>unescape\<close> reads the inside of a string literal:
  a backslash starts an escape, a bare quote or control character is not allowed
  (\<^verbatim>\<open>\u\<close> escapes are read for ASCII characters only); \<open>read_string\<close> reads a whole
  literal, quotes included, and gives the string it denotes.
\<close>

definition hex_value :: "char \<Rightarrow> nat option" where
  "hex_value c =
     (let k = (of_char c :: nat) in
      if 48 \<le> k \<and> k \<le> 57 then Some (k - 48)
      else if 97 \<le> k \<and> k \<le> 102 then Some (k - 87)
      else if 65 \<le> k \<and> k \<le> 70 then Some (k - 55)
      else None)"

fun unescape :: "string \<Rightarrow> string option" where
  "unescape [] = Some []"
| "unescape (c # cs) =
     (if c = CHR 0x5C then
        (case cs of
           [] \<Rightarrow> None
         | x # r \<Rightarrow>
             if x = CHR 0x22 then map_option ((#) (CHR 0x22)) (unescape r)
             else if x = CHR 0x5C then map_option ((#) (CHR 0x5C)) (unescape r)
             else if x = CHR ''/'' then map_option ((#) (CHR ''/'')) (unescape r)
             else if x = CHR ''b'' then map_option ((#) (CHR 0x08)) (unescape r)
             else if x = CHR ''f'' then map_option ((#) (CHR 0x0C)) (unescape r)
             else if x = CHR ''n'' then map_option ((#) (CHR 0x0A)) (unescape r)
             else if x = CHR ''r'' then map_option ((#) (CHR 0x0D)) (unescape r)
             else if x = CHR ''t'' then map_option ((#) (CHR 0x09)) (unescape r)
             else if x = CHR ''u'' then
               (case r of
                  a # b # h # l # r' \<Rightarrow>
                    (case (hex_value a, hex_value b, hex_value h, hex_value l) of
                       (Some 0, Some 0, Some hi, Some lo) \<Rightarrow>
                         if hi < 8 then map_option ((#) (char_of (16 * hi + lo))) (unescape r')
                         else None
                     | _ \<Rightarrow> None)
                | _ \<Rightarrow> None)
             else None)
      else if c = CHR 0x22 \<or> (of_char c :: nat) < 0x20 then None
      else map_option ((#) c) (unescape cs))"

definition read_string :: "string \<Rightarrow> string option" where
  "read_string t =
     (case t of
        [] \<Rightarrow> None
      | q # r \<Rightarrow>
          if q = CHR 0x22 \<and> r \<noteq> [] \<and> last r = CHR 0x22 then unescape (butlast r) else None)"

text \<open>
  The document the specification asks for: structured (JSON) text with an indentation
  unit.  \<open>json_doc nt gap ind v t\<close>: the text \<open>t\<close> is the value \<open>v\<close> written at
  indentation \<open>ind\<close>.  \<^verbatim>\<open>null\<close>, \<^verbatim>\<open>true\<close> and \<^verbatim>\<open>false\<close> are written
  as such, a number by its text \<open>nt\<close>, a string by a literal that reads as it; an array
  or object that is not empty has one element or member per line, each indented by one
  unit more than the bracket that closes it, members as key, colon, blank, value.
\<close>

inductive json_doc :: "(real \<Rightarrow> string) \<Rightarrow> string \<Rightarrow> string \<Rightarrow> json \<Rightarrow> string \<Rightarrow> bool"
  and json_elements :: "(real \<Rightarrow> string) \<Rightarrow> string \<Rightarrow> string \<Rightarrow> json list \<Rightarrow> string list \<Rightarrow> bool"
  and json_members :: "(real \<Rightarrow> string) \<Rightarrow> string \<Rightarrow> string \<Rightarrow> (string \<times> json) list \<Rightarrow> string list \<Rightarrow> bool"
  for nt :: "real \<Rightarrow> string" and gap :: string
where
  doc_null: "json_doc nt gap ind JNull ''null''"
| doc_true: "json_doc nt gap ind (JBool True) ''true''"
| doc_false: "json_doc nt gap ind (JBool False) ''false''"
| doc_number: "json_doc nt gap ind (JNumber r) (nt r)"
| doc_string: "read_string t = Some s \<Longrightarrow> json_doc nt gap ind (JString s) t"
| doc_empty_array: "json_doc nt gap ind (JArray []) ''[]''"
| doc_array:
    "vs \<noteq> [] \<Longrightarrow> json_elements nt gap (ind @ gap) vs ts \<Longrightarrow>
       json_doc nt gap ind (JArray vs)
         (''['' @ newline @ (ind @ gap) @ join ('','' @ newline @ (ind @ gap)) ts @ newline @ ind @ '']'')"
| doc_empty_object: "json_doc nt gap ind (JObject []) ''{}''"
| doc_object:
    "kvs \<noteq> [] \<Longrightarrow> json_members nt gap (ind @ gap) kvs ts \<Longrightarrow>
       json_doc nt gap ind (JObject kvs)
         (''{'' @ newline @ (ind @ gap) @ join ('','' @ newline @ (ind @ gap)) ts @ newline @ ind @ ''}'')"
| elements_nil: "json_elements nt gap ind [] []"
| elements_cons:
    "json_doc nt gap ind v t \<Longrightarrow> json_elements nt gap ind vs ts \<Longrightarrow>
       json_elements nt gap ind (v # vs) (t # ts)"
| members_nil: "json_members nt gap ind [] []"
| members_cons:
    "read_string kt = Some k \<Longrightarrow> json_doc nt gap ind v vt \<Longrightarrow> json_members nt gap ind kvs ts \<Longrightarrow>
       json_members nt gap ind ((k, v) # kvs) ((kt @ '': '' @ vt) # ts)"

section \<open>Example inputs\<close>

text \<open>
  A small world: the tool's template tree under \<^verbatim>\<open>/opt/tool/app\<close>, the user in
  \<^verbatim>\<open>/home/u\<close>, nothing printed or asked yet.
\<close>

definition example_world :: world where
  "example_world =
     \<lparr>files =
        [(''/opt'', Dir), (''/opt/tool'', Dir), (''/opt/tool/app'', Dir),
         (''/opt/tool/app/package.json'', File ''{}''),
         (''/opt/tool/app/src'', Dir),
         (''/opt/tool/app/src/index.js'', File ''entry''),
         (''/opt/tool/app/src/core'', Dir),
         (''/opt/tool/app/src/core/bot.js'', File ''core''),
         (''/home'', Dir), (''/home/u'', Dir)],
      cwd = ''/home/u'', stdout = [], stderr = [], asked = [], exited = None\<rparr>"

text \<open>The same world with a project \<^verbatim>\<open>my-bot\<close> that holds a file of the user's.\<close>

definition existing_world :: world where
  "existing_world =
     example_world\<lparr>files := files example_world @
        [(''/home/u/my-bot'', Dir), (''/home/u/my-bot/notes.txt'', File ''mine''),
         (''/home/u/my-bot/src'', Dir), (''/home/u/my-bot/src/index.js'', File ''old'')]\<rparr>"


text \<open>
  An environment in which every command fails (no network, no npm) and nothing parses:
  the user names the project \<^verbatim>\<open>my-bot\<close>, cancels the confirmation and gives the
  token \<^verbatim>\<open>abc\<close>.
\<close>

definition example_env :: env where
  "example_env =
     \<lparr>argv = [''node'', ''index.js''],
      appDir = ''/opt/tool/app'',
      appPackage = [(''name'', JString ''app''), (''version'', JString ''1.0.0''),
                    (''scripts'', JObject [(''start'', JString ''node src/index.js'')])],
      answer_name = Some ''my-bot'',
      answer_update = None,
      answer_token = Some ''abc'',
      path_resolve = (\<lambda>c n. c @ ''/'' @ n),
      execSync = (\<lambda>cmd w. (Inl (ThrownError ''Command failed''), files w, [])),
      JSON_parse = (\<lambda>s. Inl (ThrownError ''SyntaxError: Unexpected end of JSON input'')),
      number_text = (\<lambda>r. if r = 5 then ''5'' else ''0''),
      other_text = (\<lambda>v. case v of JNumber r \<Rightarrow> (if r = 5 then ''5'' else ''0'') | _ \<Rightarrow> ''[object Object]''),
      inspect_error = (\<lambda>m. ''Error: '' @ m @ [CHR 0x0A] @ ''    at Object.<anonymous> (src/index.js)'')\<rparr>"

text \<open>
  The same environment with a template manifest that holds every kind of value.
\<close>

definition manifest_env :: env where
  "manifest_env =
     example_env\<lparr>appPackage :=
        [(''name'', JString ''app''), (''version'', JString ''1.0.0''), (''private'', JBool True),
         (''keywords'', JArray [JString ''discord'', JString ''bot'']),
         (''config'', JObject [(''shards'', JNumber 5), (''owner'', JNull), (''tags'', JArray [])])]\<rparr>"

text \<open>A credential with a quote and a backslash in it: \<^verbatim>\<open>a"b\c\<close>.\<close>

definition tricky_token :: string where
  "tricky_token = ''a'' @ [CHR 0x22] @ ''b'' @ [CHR 0x5C] @ ''c''"

text \<open>The body \<^verbatim>\<open>{"id": 5}\<close> and what \<^verbatim>\<open>JSON.parse\<close> makes of it.\<close>

definition numeric_id_body :: string where
  "numeric_id_body = ''{'' @ [CHR 0x22] @ ''id'' @ [CHR 0x22] @ '': 5}''"

definition numeric_id_env :: env where
  "numeric_id_env =
     example_env\<lparr>execSync := (\<lambda>cmd w. (Inr numeric_id_body, files w, [])),
                  JSON_parse := (\<lambda>s. if s = numeric_id_body then Inr (JObject [(''id'', JNumber 5)])
                                      else Inl (ThrownError ''SyntaxError''))\<rparr>"

text \<open>The body \<^verbatim>\<open>{"id": 0}\<close> and what \<^verbatim>\<open>JSON.parse\<close> makes of it.\<close>

definition zero_id_body :: string where
  "zero_id_body = ''{'' @ [CHR 0x22] @ ''id'' @ [CHR 0x22] @ '': 0}''"

definition zero_id_env :: env where
  "zero_id_env =
     example_env\<lparr>execSync := (\<lambda>cmd w. (Inr zero_id_body, files w, [])),
                  JSON_parse := (\<lambda>s. if s = zero_id_body then Inr (JObject [(''id'', JNumber 0)])
                                      else Inl (ThrownError ''SyntaxError''))\<rparr>"

section \<open>The probe contains its failures\<close>

lemma getApplicationId_unfold:
  "getApplicationId e token w =
     (case exec e (curl_command token) w of
        (Inl err, w') \<Rightarrow> (Inr JNull, w')
      | (Inr response, w') \<Rightarrow>
          (case JSON_parse e response of
             Inl err \<Rightarrow> (Inr JNull, w')
           | Inr parsed \<Rightarrow>
               (case get_id parsed of
                  Inl err \<Rightarrow> (Inr JNull, w')
                | Inr i \<Rightarrow> (Inr (or_null i), w'))))"
  by (simp add: getApplicationId_def getApplicationId_try_def split: prod.splits sum.splits)

lemma get_id_Some: "get_id parsed = Inr (Some v) \<longleftrightarrow> (\<exists>kvs. parsed = JObject kvs \<and> map_of kvs ''id'' = Some v)"
  by (cases parsed) auto

lemma or_null_cases: "or_null i = JNull \<or> (i = Some (or_null i) \<and> truthy i)"
  by (cases i) auto

lemma or_null_falsy: "\<not> truthy i \<Longrightarrow> or_null i = JNull"
  by (cases i) auto

text \<open>
  The probe contains its failures: it returns for every credential (and for a cancelled
  token prompt), and the value is \<^verbatim>\<open>null\<close> when the request fails, when the body
  is not JSON and when the parsed value has no \<^verbatim>\<open>id\<close>.
\<close>

lemma getApplicationId_returns:
  "\<exists>v w'. getApplicationId e token w = (Inr v, w')"
  by (auto simp: getApplicationId_unfold split: prod.splits sum.splits)

lemma getApplicationId_failure_null:
  assumes "fst (exec e (curl_command token) w) = Inl err
           \<or> (\<exists>response. fst (exec e (curl_command token) w) = Inr response
                 \<and> (case JSON_parse e response of
                       Inl err \<Rightarrow> True
                     | Inr parsed \<Rightarrow> \<forall>kvs. parsed = JObject kvs \<longrightarrow> map_of kvs ''id'' = None))"
  shows "fst (getApplicationId e token w) = Inr JNull"
proof (cases "exec e (curl_command token) w")
  case (Pair r w')
  show ?thesis
  proof (cases r)
    case (Inl err')
    with Pair show ?thesis by (simp add: getApplicationId_unfold)
  next
    case (Inr response)
    show ?thesis
    proof (cases "JSON_parse e response")
      case (Inl err')
      with Pair Inr show ?thesis by (simp add: getApplicationId_unfold)
    next
      case parsed: (Inr parsed)
      with assms Pair Inr have "\<forall>kvs. parsed = JObject kvs \<longrightarrow> map_of kvs ''id'' = None"
        by simp
      then have "get_id parsed = Inr None \<or> (\<exists>err. get_id parsed = Inl err)"
        by (cases parsed) auto
      with Pair Inr parsed show ?thesis
        by (auto simp add: getApplicationId_unfold)
    qed
  qed
qed

text \<open>
  Claim C1.  The probe is documented to return a string or \<^verbatim>\<open>null\<close>
  (\<^verbatim>\<open>@returns {string | null}\<close>), and the claim says the same.  The code returns
  \<^verbatim>\<open>parsedResponse.id || null\<close> whatever the type of the \<^verbatim>\<open>id\<close>: on the body
  \<^verbatim>\<open>{"id": 5}\<close> the probe returns the number 5, which is neither a string nor
  \<^verbatim>\<open>null\<close>.
\<close>

theorem numeric_id_not_string:
  "fst (getApplicationId numeric_id_env (Some ''abc'') example_world) = Inr (JNumber 5)
   \<and> \<not> string_or_null (JNumber 5)"
  by (simp add: getApplicationId_unfold exec_def numeric_id_env_def example_env_def)

text \<open>
  Claim C10.  When the response parses and its \<^verbatim>\<open>id\<close> is falsy (absent,
  \<^verbatim>\<open>null\<close>, the empty string, 0, also \<^verbatim>\<open>false\<close>) the probe returns
  \<^verbatim>\<open>null\<close>, not the falsy value; a result other than \<^verbatim>\<open>null\<close> is the truthy
  \<^verbatim>\<open>id\<close> of the parsed object.
\<close>

theorem falsy_id_gives_null:
  "(\<forall>response parsed i w'.
       exec e (curl_command token) w = (Inr response, w') \<and> JSON_parse e response = Inr parsed
         \<and> get_id parsed = Inr i \<and> \<not> truthy i
       \<longrightarrow> getApplicationId e token w = (Inr JNull, w'))
   \<and> (\<forall>v. fst (getApplicationId e token w) = Inr v \<and> v \<noteq> JNull
       \<longrightarrow> (\<exists>response kvs. fst (exec e (curl_command token) w) = Inr response
              \<and> JSON_parse e response = Inr (JObject kvs) \<and> map_of kvs ''id'' = Some v \<and> truthy (Some v)))
   \<and> \<not> truthy None \<and> \<not> truthy (Some JNull) \<and> \<not> truthy (Some (JString []))
   \<and> \<not> truthy (Some (JNumber 0)) \<and> \<not> truthy (Some (JBool False))"
proof (intro conjI allI impI)
  fix response parsed i w'
  assume "exec e (curl_command token) w = (Inr response, w') \<and> JSON_parse e response = Inr parsed
         \<and> get_id parsed = Inr i \<and> \<not> truthy i"
  then show "getApplicationId e token w = (Inr JNull, w')"
    by (simp add: getApplicationId_unfold or_null_falsy)
next
  fix v
  assume a: "fst (getApplicationId e token w) = Inr v \<and> v \<noteq> JNull"
  obtain r w' where ex: "exec e (curl_command token) w = (r, w')"
    by (cases "exec e (curl_command token) w")
  from a ex obtain response where r: "r = Inr response"
    by (cases r) (auto simp: getApplicationId_unfold)
  from a ex r obtain parsed where p: "JSON_parse e response = Inr parsed"
    by (cases "JSON_parse e response") (auto simp: getApplicationId_unfold)
  from a ex r p obtain i where i: "get_id parsed = Inr i"
    by (cases "get_id parsed") (auto simp: getApplicationId_unfold)
  from a ex r p i have v: "or_null i = v"
    by (simp add: getApplicationId_unfold)
  with a or_null_cases [of i] have "i = Some v" "truthy (Some v)"
    by auto
  with i obtain kvs where "parsed = JObject kvs" "map_of kvs ''id'' = Some v"
    by (auto simp: get_id_Some)
  with ex r p \<open>truthy (Some v)\<close>
  show "\<exists>response kvs. fst (exec e (curl_command token) w) = Inr response
              \<and> JSON_parse e response = Inr (JObject kvs) \<and> map_of kvs ''id'' = Some v \<and> truthy (Some v)"
    by auto
qed simp_all

text \<open>Claim C10 on the body \<^verbatim>\<open>{"id": 0}\<close>.\<close>

theorem falsy_id_gives_null_witness:
  "getApplicationId zero_id_env (Some ''abc'') example_world = (Inr JNull, example_world)
   \<and> \<not> truthy (Some (JNumber 0))"
proof -
  have "exec zero_id_env (curl_command (Some ''abc'')) example_world = (Inr zero_id_body, example_world)"
    by (simp add: exec_def zero_id_env_def example_env_def)
  moreover have "JSON_parse zero_id_env zero_id_body = Inr (JObject [(''id'', JNumber 0)])"
    by (simp add: zero_id_env_def example_env_def)
  moreover have "get_id (JObject [(''id'', JNumber 0)]) = Inr (Some (JNumber 0))"
    by simp
  ultimately show ?thesis
    using falsy_id_gives_null [of zero_id_env "Some ''abc''" example_world]
    by simp
qed

section \<open>The execution policy\<close>

lemma forEach_steps_append_plan:
  "forEach_steps dryRun steps w = in_order (concat (map (step_plan dryRun) steps)) w"
proof (induction steps arbitrary: w)
  case Nil
  show ?case by simp
next
  case (Cons s ss)
  show ?case
  proof (cases "ignoreDry s = Some True \<or> \<not> dryRun")
    case True
    then have plan: "step_plan dryRun s = [print_message (message s), action s]"
      by (auto simp: step_plan_def)
    have "forEach_steps dryRun (s # ss) w =
            (case action s (console_log (message s) w) of
               (Inl err, w2) \<Rightarrow> (Inl err, w2)
             | (Inr u, w2) \<Rightarrow> forEach_steps dryRun ss w2)"
      using True by (simp add: Let_def)
    also have "\<dots> = in_order (step_plan dryRun s @ concat (map (step_plan dryRun) ss)) w"
      unfolding plan by (simp add: print_message_def Cons.IH split: prod.splits sum.splits)
    finally show ?thesis by simp
  next
    case False
    then have plan: "step_plan dryRun s = [print_message (message s)]"
      by (auto simp: step_plan_def)
    have "forEach_steps dryRun (s # ss) w = forEach_steps dryRun ss (console_log (message s) w)"
      using False by (simp add: Let_def)
    also have "\<dots> = in_order (step_plan dryRun s @ concat (map (step_plan dryRun) ss)) w"
      unfolding plan by (simp add: print_message_def Cons.IH)
    finally show ?thesis by simp
  qed
qed

lemma forEach_steps_dry_skip:
  "\<forall>s\<in>set steps. ignoreDry s \<noteq> Some True \<Longrightarrow>
     forEach_steps True steps w = (Inr (), w\<lparr>stdout := stdout w @ map message steps\<rparr>)"
proof (induction steps arbitrary: w)
  case Nil
  show ?case by simp
next
  case (Cons s ss)
  then show ?case
    by (simp add: console_log_def Let_def)
qed

text \<open>
  Claim C2.  For every step list and either value of the dry-run flag the loop does, in
  the order of the list, what the policy says: each step's message is printed, whatever
  the flag, and its action is executed if and only if the run is not a dry run or the step
  sets \<^verbatim>\<open>ignoreDry\<close>.  Without the flag every action runs; with it, and no step
  setting \<^verbatim>\<open>ignoreDry\<close>, the run prints every message and changes nothing else.
\<close>

theorem forEach_steps_policy:
  "forEach_steps dryRun steps w = in_order (concat (map (step_plan dryRun) steps)) w
   \<and> forEach_steps False steps w
       = in_order (concat (map (\<lambda>s. [print_message (message s), action s]) steps)) w
   \<and> ((\<forall>s\<in>set steps. ignoreDry s \<noteq> Some True)
        \<longrightarrow> forEach_steps True steps w = (Inr (), w\<lparr>stdout := stdout w @ map message steps\<rparr>))"
proof (intro conjI impI)
  show "forEach_steps dryRun steps w = in_order (concat (map (step_plan dryRun) steps)) w"
    by (rule forEach_steps_append_plan)
next
  have "step_plan False = (\<lambda>s. [print_message (message s), action s])"
    by (rule ext) (simp add: step_plan_def)
  then show "forEach_steps False steps w
       = in_order (concat (map (\<lambda>s. [print_message (message s), action s]) steps)) w"
    using forEach_steps_append_plan [of False steps w] by simp
next
  assume "\<forall>s\<in>set steps. ignoreDry s \<noteq> Some True"
  then show "forEach_steps True steps w = (Inr (), w\<lparr>stdout := stdout w @ map message steps\<rparr>)"
    by (rule forEach_steps_dry_skip)
qed

text \<open>
  Claim C2 on the steps of a creation and of an update, both as dry runs: only the
  invite link step of the creation runs its action.
\<close>

theorem forEach_steps_policy_witness:
  "forEach_steps True (create_steps example_env ''my-bot'' ''/home/u/my-bot'' (Some ''abc'')) example_world
     = (Inr (), example_world\<lparr>stdout :=
          [''Creating directory '' @ sq @ ''my-bot'' @ sq @ ''...'',
           ''Creating boilerplate...'',
           ''Updating package.json...'',
           ''Writing token.json...'',
           ''Installing modules...'',
           newline @ ''Generating bot invite link...'',
           ''The given bot token was invalid so no link was generated.'']\<rparr>)
   \<and> forEach_steps True (update_steps example_env ''my-bot'' ''/home/u/my-bot'') existing_world
     = (Inr (), existing_world\<lparr>stdout := [''Updating core files in '' @ sq @ ''my-bot'' @ sq @ ''...'']\<rparr>)"
proof -
  have probe: "getApplicationId example_env (Some ''abc'') w = (Inr JNull, w)" for w
    by (simp add: getApplicationId_unfold exec_def example_env_def)
  have a: "in_order (concat (map (step_plan True)
             (create_steps example_env ''my-bot'' ''/home/u/my-bot'' (Some ''abc'')))) example_world
     = (Inr (), example_world\<lparr>stdout :=
          [''Creating directory '' @ sq @ ''my-bot'' @ sq @ ''...'',
           ''Creating boilerplate...'',
           ''Updating package.json...'',
           ''Writing token.json...'',
           ''Installing modules...'',
           newline @ ''Generating bot invite link...'',
           ''The given bot token was invalid so no link was generated.'']\<rparr>)"
    by (simp add: create_steps_def step_plan_def print_message_def console_log_def invite_link_def
        probe example_world_def)
  have b: "\<forall>s\<in>set (update_steps example_env ''my-bot'' ''/home/u/my-bot''). ignoreDry s \<noteq> Some True"
    by (simp add: update_steps_def)
  show ?thesis
    using forEach_steps_policy [of True "create_steps example_env ''my-bot'' ''/home/u/my-bot'' (Some ''abc'')" example_world]
      forEach_steps_policy [of True "update_steps example_env ''my-bot'' ''/home/u/my-bot''" existing_world]
      a b
    by (simp add: update_steps_def existing_world_def example_world_def)
qed

section \<open>The step lists\<close>

text \<open>
  Claim C4, as amended.  The step list of a creation has exactly six steps in a fixed
  order: make the directory, copy the boilerplate, write the manifest, write the token
  file, install the modules, print the invite link; only the last sets
  \<^verbatim>\<open>ignoreDry\<close>.
\<close>

theorem create_steps_six:
  "length (create_steps e name dir token) = 6
   \<and> map message (create_steps e name dir token)
       = [''Creating directory '' @ sq @ name @ sq @ ''...'',
          ''Creating boilerplate...'',
          ''Updating package.json...'',
          ''Writing token.json...'',
          ''Installing modules...'',
          newline @ ''Generating bot invite link...'']
   \<and> map ignoreDry (create_steps e name dir token) = [None, None, None, None, None, Some True]
   \<and> map action (create_steps e name dir token)
       = [mkdirSync dir,
          and_then (copySync (appDir e) dir)
            (writeFileSync (path_join dir ''.gitignore'') (''node_modules/'' @ newline @ ''token.json'' @ newline)),
          writeFileSync (path_join dir ''package.json'') (JSON_stringify e (JObject (newPackage e name)) 2 @ newline),
          writeFileSync (path_join dir ''token.json'') (JSON_stringify e (token_object token) 2 @ newline),
          install_modules e dir,
          invite_link e token]"
  by (simp add: create_steps_def)

text \<open>Claim C4 as stated (exactly five steps) fails: the list is not of length five.\<close>

theorem create_steps_not_five:
  "length (create_steps example_env ''my-bot'' ''/home/u/my-bot'' (Some ''abc'')) \<noteq> 5"
  by (simp add: create_steps_def)

text \<open>Claim C4, as amended, on the example.\<close>

theorem create_steps_six_witness:
  "length (create_steps example_env ''my-bot'' ''/home/u/my-bot'' (Some ''abc'')) = 6
   \<and> message (create_steps example_env ''my-bot'' ''/home/u/my-bot'' (Some ''abc'') ! 5)
       = newline @ ''Generating bot invite link...''"
  using create_steps_six [of example_env "''my-bot''" "''/home/u/my-bot''" "Some ''abc''"]
  by (simp add: create_steps_def)

section \<open>What a run leaves alone\<close>

text \<open>
  No file operation, child process or step touches the questions asked or the exit
  status: only the script's own prompts and its final \<^verbatim>\<open>process.exit(0)\<close> do.
\<close>

lemma on_files_keeps:
  "on_files f w = (r, w') \<Longrightarrow>
     asked w' = asked w \<and> exited w' = exited w \<and> stdout w' = stdout w \<and> stderr w' = stderr w \<and> cwd w' = cwd w"
  by (auto simp: on_files_def split: prod.splits option.splits)

lemma exec_keeps:
  "exec e c w = (r, w') \<Longrightarrow>
     asked w' = asked w \<and> exited w' = exited w \<and> stdout w' = stdout w \<and> cwd w' = cwd w"
  by (auto simp: exec_def split: prod.splits)

lemma chdir_keeps:
  "chdir p w = (r, w') \<Longrightarrow> asked w' = asked w \<and> exited w' = exited w \<and> files w' = files w"
  by (auto simp: chdir_def split: if_splits)

lemma getApplicationId_keeps:
  "getApplicationId e token w = (r, w') \<Longrightarrow> asked w' = asked w \<and> exited w' = exited w"
  by (auto simp: getApplicationId_def getApplicationId_try_def
      split: prod.splits sum.splits dest: exec_keeps)

lemma install_modules_keeps:
  "install_modules e dir w = (r, w') \<Longrightarrow> asked w' = asked w \<and> exited w' = exited w"
  by (auto simp: install_modules_def split: prod.splits sum.splits dest!: exec_keeps chdir_keeps)

lemma invite_link_keeps:
  "invite_link e token w = (r, w') \<Longrightarrow> asked w' = asked w \<and> exited w' = exited w"
  by (auto simp: invite_link_def console_log_def split: prod.splits sum.splits
      dest!: getApplicationId_keeps)

lemma file_ops_keep:
  "mkdirSync p w = (r, w') \<Longrightarrow> asked w' = asked w \<and> exited w' = exited w"
  "writeFileSync p d w = (r, w') \<Longrightarrow> asked w' = asked w \<and> exited w' = exited w"
  "copySync src dest w = (r, w') \<Longrightarrow> asked w' = asked w \<and> exited w' = exited w"
  using on_files_keeps by (auto simp: mkdirSync_def writeFileSync_def copySync_def)

lemma and_then_files_keeps:
  "and_then (on_files f) (on_files g) w = (r, w') \<Longrightarrow> asked w' = asked w \<and> exited w' = exited w"
  by (auto simp: and_then_def split: prod.splits sum.splits dest!: on_files_keeps)

lemma create_steps_keep:
  assumes "s \<in> set (create_steps e name dir token)" and "action s w = (r, w')"
  shows "asked w' = asked w \<and> exited w' = exited w"
proof -
  from assms(1) consider
      "action s = mkdirSync dir"
    | "action s = and_then (copySync (appDir e) dir)
         (writeFileSync (path_join dir ''.gitignore'') (''node_modules/'' @ newline @ ''token.json'' @ newline))"
    | "action s = writeFileSync (path_join dir ''package.json'')
         (JSON_stringify e (JObject (newPackage e name)) 2 @ newline)"
    | "action s = writeFileSync (path_join dir ''token.json'') (JSON_stringify e (token_object token) 2 @ newline)"
    | "action s = install_modules e dir"
    | "action s = invite_link e token"
    by (auto simp: create_steps_def)
  then show ?thesis
  proof cases
    case 2
    with assms(2) show ?thesis
      unfolding copySync_def writeFileSync_def by (metis and_then_files_keeps)
  qed (use assms(2) in \<open>auto dest: file_ops_keep install_modules_keeps invite_link_keeps\<close>)
qed

lemma update_steps_keep:
  assumes "s \<in> set (update_steps e name dir)" and "action s w = (r, w')"
  shows "asked w' = asked w \<and> exited w' = exited w"
proof -
  from assms(1) have "action s = and_then (copySync (appDir e @ ''/src/core'') (dir @ ''/src/core''))
                         (copySync (appDir e @ ''/src/index.js'') (dir @ ''/src/index.js''))"
    by (simp add: update_steps_def)
  with assms(2) show ?thesis
    unfolding copySync_def by (metis and_then_files_keeps)
qed

lemma forEach_steps_keeps:
  assumes "\<And>s w r w'. s \<in> set steps \<Longrightarrow> action s w = (r, w') \<Longrightarrow> asked w' = asked w \<and> exited w' = exited w"
  shows "forEach_steps dry steps w = (r, w') \<Longrightarrow> asked w' = asked w \<and> exited w' = exited w"
  using assms
proof (induction steps arbitrary: w)
  case Nil
  then show ?case by simp
next
  case (Cons s ss)
  let ?w1 = "console_log (message s) w"
  have w1: "asked ?w1 = asked w \<and> exited ?w1 = exited w"
    by (simp add: console_log_def)
  have rest: "asked w' = asked v \<and> exited w' = exited v" if "forEach_steps dry ss v = (r, w')" for v
  proof (rule Cons.IH [OF that])
    fix s' u r' u'
    assume "s' \<in> set ss" and "action s' u = (r', u')"
    then show "asked u' = asked u \<and> exited u' = exited u"
      using Cons.prems(2) [of s' u r' u'] by simp
  qed
  show ?case
  proof (cases "ignoreDry s = Some True \<or> \<not> dry")
    case False
    with Cons.prems(1) have "forEach_steps dry ss ?w1 = (r, w')" by (simp add: Let_def)
    with rest w1 show ?thesis by metis
  next
    case True
    obtain ra wa where a: "action s ?w1 = (ra, wa)" by (cases "action s ?w1")
    with Cons.prems(2) [of s ?w1 ra wa] w1 have wa: "asked wa = asked w \<and> exited wa = exited w"
      by simp
    show ?thesis
    proof (cases ra)
      case (Inl err)
      with True a Cons.prems(1) wa show ?thesis by (simp add: Let_def)
    next
      case (Inr u)
      with True a Cons.prems(1) have "forEach_steps dry ss wa = (r, w')" by (simp add: Let_def)
      with rest wa show ?thesis by metis
    qed
  qed
qed

lemma build_steps_cases:
  "build_steps e name dir w =
     (if existsSync dir w
      then (if answer_update e = Some True
            then (Inr (update_steps e name dir),
                  ask (ConfirmPrompt, ''update'',
                       ''Directory '' @ sq @ dir @ sq @ '' already exists. Do you want to update it?'') w)
            else (Inl (ThrownString ''Quitting...''),
                  console_log [] (ask (ConfirmPrompt, ''update'',
                       ''Directory '' @ sq @ dir @ sq @ '' already exists. Do you want to update it?'') w)))
      else (Inr (create_steps e name dir (answer_token e)),
            ask (PasswordPrompt, ''token'', ''Discord bot token?'') w))"
  by (simp add: build_steps_def Let_def)

lemma build_steps_exited:
  "build_steps e name dir w = (r, w') \<Longrightarrow> exited w' = exited w"
  by (auto simp: build_steps_cases ask_def console_log_def split: if_splits)

lemma build_steps_keep:
  assumes "build_steps e name dir w = (Inr steps, w1)" and "s \<in> set steps" and "action s v = (r, v')"
  shows "asked v' = asked v \<and> exited v' = exited v"
proof -
  from assms(1) have "steps = update_steps e name dir \<or> steps = create_steps e name dir (answer_token e)"
    by (auto simp: build_steps_cases split: if_splits)
  with assms(2,3) show ?thesis
    using update_steps_keep create_steps_keep by blast
qed

lemma main_then_thrown_exited:
  assumes "main_then e a w = (Inl err, w')"
  shows "exited w' = exited w"
proof (cases a)
  case None
  with assms show ?thesis by (simp add: main_then_def)
next
  case (Some name)
  let ?dir = "path_resolve e (cwd w) name"
  obtain rb w1 where b: "build_steps e name ?dir w = (rb, w1)"
    by (cases "build_steps e name ?dir w")
  then have w1: "exited w1 = exited w" by (rule build_steps_exited)
  show ?thesis
  proof (cases rb)
    case (Inl err')
    with Some b assms w1 show ?thesis by (simp add: main_then_def Let_def)
  next
    case (Inr steps)
    obtain rf w2 where f: "forEach_steps (isDryRun e) steps (console_log [] w1) = (rf, w2)"
      by (cases "forEach_steps (isDryRun e) steps (console_log [] w1)")
    have "asked w2 = asked (console_log [] w1) \<and> exited w2 = exited (console_log [] w1)"
      using build_steps_keep [OF b [unfolded Inr]] f by (rule forEach_steps_keeps)
    then have w2: "exited w2 = exited w" using w1 by (simp add: console_log_def)
    from Some b Inr f assms have "rf = Inl err \<and> w2 = w'"
      by (cases rf) (simp_all add: main_then_def Let_def)
    with w2 show ?thesis by simp
  qed
qed

lemma main_then_returns_exited:
  assumes "main_then e a w = (Inr u, w')"
  shows "exited w' = Some 0"
proof (cases a)
  case None
  with assms show ?thesis by (simp add: main_then_def)
next
  case (Some name)
  with assms show ?thesis
    by (auto simp: main_then_def Let_def split: prod.splits sum.splits)
qed


section \<open>Create or update\<close>

lemma main_cases:
  "main e w =
     (case main_then e (answer_name e) (ask (TextPrompt, ''name'', ''Application name?'') (console_log banner w)) of
        (Inl err, w') \<Rightarrow> console_error e err w'
      | (Inr u, w') \<Rightarrow> w')"
  by (simp add: main_def)








text \<open>
  Claim C3.  When the target path exists and the confirmation is negative or cancelled
  (anything but \<^verbatim>\<open>true\<close>), the run ends with \<^verbatim>\<open>Quitting...\<close> before a step is
  built: the whole run prints the banner and an empty line, asks the two questions and
  prints \<^verbatim>\<open>Quitting...\<close> with \<^verbatim>\<open>console.error\<close>; the file system, the working
  directory and the exit status are as before.
\<close>

theorem declined_update_quits:
  assumes "answer_name e = Some name"
    and "existsSync (path_resolve e (cwd w) name) w"
    and "answer_update e \<noteq> Some True"
  shows "main e w
           = w\<lparr>stdout := stdout w @ [banner, []],
               stderr := stderr w @ [''Quitting...''],
               asked := asked w @ [(TextPrompt, ''name'', ''Application name?''),
                                   (ConfirmPrompt, ''update'',
                                    ''Directory '' @ sq @ path_resolve e (cwd w) name @ sq
                                      @ '' already exists. Do you want to update it?'')]\<rparr>
         \<and> files (main e w) = files w \<and> cwd (main e w) = cwd w \<and> exited (main e w) = exited w
         \<and> fst (build_steps e name (path_resolve e (cwd w) name)
                  (ask (TextPrompt, ''name'', ''Application name?'') (console_log banner w)))
             = Inl (ThrownString ''Quitting...'')"
proof -
  let ?w0 = "ask (TextPrompt, ''name'', ''Application name?'') (console_log banner w)"
  let ?dir = "path_resolve e (cwd w) name"
  have w0: "cwd ?w0 = cwd w" "existsSync ?dir ?w0"
    using assms(2) by (simp_all add: ask_def console_log_def existsSync_def exists_fs_def)
  have b: "build_steps e name ?dir ?w0
     = (Inl (ThrownString ''Quitting...''),
        console_log [] (ask (ConfirmPrompt, ''update'',
           ''Directory '' @ sq @ ?dir @ sq @ '' already exists. Do you want to update it?'') ?w0))"
    using w0 assms(3) by (simp add: build_steps_cases)
  have m: "main e w = console_error e (ThrownString ''Quitting...'')
        (console_log [] (ask (ConfirmPrompt, ''update'',
           ''Directory '' @ sq @ ?dir @ sq @ '' already exists. Do you want to update it?'') ?w0))"
    using assms(1) b w0 by (simp add: main_cases main_then_def Let_def)
  show ?thesis
    unfolding m using b by (simp add: console_error_def console_log_def ask_def)
qed

text \<open>Claim C3 on the example: the confirmation cancelled, and answered no.\<close>

theorem declined_update_quits_witness:
  "main example_env existing_world
     = existing_world\<lparr>stdout := [banner, []],
         stderr := [''Quitting...''],
         asked := [(TextPrompt, ''name'', ''Application name?''),
                   (ConfirmPrompt, ''update'',
                    ''Directory '' @ sq @ ''/home/u/my-bot'' @ sq @ '' already exists. Do you want to update it?'')]\<rparr>
   \<and> files (main (example_env\<lparr>answer_update := Some False\<rparr>) existing_world) = files existing_world"
proof -
  have y: "existsSync ''/home/u/my-bot'' existing_world"
    by (simp add: existsSync_def exists_fs_def existing_world_def example_world_def)
  have e: "answer_name example_env = Some ''my-bot''"
    "path_resolve example_env (cwd existing_world) ''my-bot'' = ''/home/u/my-bot''"
    "answer_update example_env = None"
    "stdout existing_world = []" "stderr existing_world = []" "asked existing_world = []"
    by (simp_all add: example_env_def example_world_def existing_world_def)
  show ?thesis
    using declined_update_quits [of example_env "''my-bot''" existing_world]
      declined_update_quits [of "example_env\<lparr>answer_update := Some False\<rparr>" "''my-bot''" existing_world]
      y e
    by simp
qed

section \<open>The exit code\<close>

text \<open>
  Claim C5, as amended.  Whatever the callback throws (the declined confirmation, a
  failing step) is printed with \<^verbatim>\<open>console.error\<close> and \<^verbatim>\<open>process.exit\<close> is not
  called, so the process ends with exit code 0; a run without a failure calls
  \<^verbatim>\<open>process.exit(0)\<close>.  The exit code is 0 in every case.
\<close>

theorem failure_is_printed_exit_code_zero:
  assumes "exited w = None"
  shows "exit_code (main e w) = 0
         \<and> (\<forall>err w'. main_then e (answer_name e)
                        (ask (TextPrompt, ''name'', ''Application name?'') (console_log banner w)) = (Inl err, w')
              \<longrightarrow> main e w = console_error e err w' \<and> stderr (main e w) = stderr w' @ [thrown_text e err]
                  \<and> exited (main e w) = None)
         \<and> (\<forall>u w'. main_then e (answer_name e)
                        (ask (TextPrompt, ''name'', ''Application name?'') (console_log banner w)) = (Inr u, w')
              \<longrightarrow> main e w = w' \<and> exited (main e w) = Some 0)"
proof -
  let ?w0 = "ask (TextPrompt, ''name'', ''Application name?'') (console_log banner w)"
  have w0: "exited ?w0 = None"
    using assms by (simp add: ask_def console_log_def)
  have thrown: "main e w = console_error e err w' \<and> stderr (main e w) = stderr w' @ [thrown_text e err]
                  \<and> exited (main e w) = None"
    if "main_then e (answer_name e) ?w0 = (Inl err, w')" for err w'
    using that main_then_thrown_exited [OF that] w0
    by (simp add: main_cases console_error_def)
  have returned: "main e w = w' \<and> exited (main e w) = Some 0"
    if "main_then e (answer_name e) ?w0 = (Inr u, w')" for u w'
    using that main_then_returns_exited [OF that]
    by (simp add: main_cases)
  have "exited (main e w) = None \<or> exited (main e w) = Some 0"
  proof (cases "main_then e (answer_name e) ?w0")
    case (Pair r w')
    then show ?thesis
      using thrown returned by (cases r) blast+
  qed
  then have "exit_code (main e w) = 0"
    by (auto simp: exit_code_def)
  with thrown returned show ?thesis by blast
qed

text \<open>
  Claim C5 as stated (a declined confirmation ends the process with a non-zero code)
  fails: the declined run of the example prints \<^verbatim>\<open>Quitting...\<close> and ends with
  code 0.
\<close>

theorem declined_update_exits_zero:
  "existsSync (path_resolve example_env (cwd existing_world) ''my-bot'') existing_world
   \<and> answer_update example_env = None
   \<and> stderr (main example_env existing_world) = [''Quitting...'']
   \<and> exited (main example_env existing_world) = None
   \<and> exit_code (main example_env existing_world) = 0"
proof -
  have y: "existsSync ''/home/u/my-bot'' existing_world"
    by (simp add: existsSync_def exists_fs_def existing_world_def example_world_def)
  have e: "answer_name example_env = Some ''my-bot''"
    "path_resolve example_env (cwd existing_world) ''my-bot'' = ''/home/u/my-bot''"
    "answer_update example_env = None"
    by (simp_all add: example_env_def example_world_def existing_world_def)
  have b: "build_steps example_env ''my-bot'' ''/home/u/my-bot''
             (ask (TextPrompt, ''name'', ''Application name?'') (console_log banner existing_world))
           = (Inl (ThrownString ''Quitting...''),
              console_log [] (ask (ConfirmPrompt, ''update'',
                ''Directory '' @ sq @ ''/home/u/my-bot'' @ sq @ '' already exists. Do you want to update it?'')
                (ask (TextPrompt, ''name'', ''Application name?'') (console_log banner existing_world))))"
    using y e by (simp add: build_steps_cases existsSync_def exists_fs_def ask_def console_log_def)
  have c: "cwd (ask (TextPrompt, ''name'', ''Application name?'') (console_log banner existing_world))
             = cwd existing_world"
    by (simp add: ask_def console_log_def)
  have m: "main example_env existing_world
      = console_error example_env (ThrownString ''Quitting...'')
          (console_log [] (ask (ConfirmPrompt, ''update'',
                ''Directory '' @ sq @ ''/home/u/my-bot'' @ sq @ '' already exists. Do you want to update it?'')
                (ask (TextPrompt, ''name'', ''Application name?'') (console_log banner existing_world))))"
    using e b c by (simp add: main_cases main_then_def Let_def)
  have x: "stderr existing_world = []" "exited existing_world = None"
    by (simp_all add: existing_world_def example_world_def)
  show ?thesis
    unfolding m using y e x
    by (simp add: console_error_def console_log_def ask_def exit_code_def)
qed

text \<open>Claim C5, as amended, on a run that fails at the install step and on a declined one.\<close>

theorem failure_is_printed_exit_code_zero_witness:
  "exit_code (main example_env example_world) = 0
   \<and> exit_code (main example_env existing_world) = 0"
proof -
  have "exited example_world = None" "exited existing_world = None"
    by (simp_all add: existing_world_def example_world_def)
  then show ?thesis
    using failure_is_printed_exit_code_zero [of example_world example_env]
      failure_is_printed_exit_code_zero [of existing_world example_env]
    by simp
qed

section \<open>The files a creation writes\<close>

lemma map_of_update_fs:
  "map_of (AList.update k v fs) p = (if p = k then Some v else map_of fs p)"
  by (simp add: update_conv')

lemma writeFileSync_written:
  assumes "writeFileSync p d w = (Inr (), w')"
  shows "file_content (files w') p = Some d"
  using assms
  by (auto simp: writeFileSync_def on_files_def writeFileSync_fs_def file_content_def map_of_update_fs
      split: if_splits)

lemma writeFileSync_elsewhere:
  assumes "writeFileSync p d w = (r, w')" and "q \<noteq> p"
  shows "map_of (files w') q = map_of (files w) q"
  using assms
  by (auto simp: writeFileSync_def on_files_def writeFileSync_fs_def map_of_update_fs
      split: if_splits)

lemma path_join_inject: "path_join d f = path_join d g \<longleftrightarrow> f = g"
  by (simp add: path_join_def)

lemma stringify_two_object:
  "kvs \<noteq> [] \<Longrightarrow>
     JSON_stringify e (JObject kvs) 2
       = ''{'' @ newline @ ''  ''
           @ join ('','' @ newline @ ''  '')
               (map (\<lambda>kv. quote (fst kv) @ '': '' @ stringify (number_text e) ''  '' ''  '' (snd kv)) kvs)
           @ newline @ ''}''"
  by (simp add: JSON_stringify_def numeral_2_eq_2)

lemma hex_value_digit: "hex_value (hex_digit n) = Some (n mod 16)"
proof -
  have "m \<in> {0, 1, 2, 3, 4, 5, 6, 7, 8, 9, 10, 11, 12, 13, 14, 15}" if "m < 16" for m :: nat
    using that by (simp only: insert_iff empty_iff) presburger
  then have "n mod 16 \<in> {0, 1, 2, 3, 4, 5, 6, 7, 8, 9, 10, 11, 12, 13, 14, 15}"
    by simp
  then show ?thesis
    unfolding hex_digit_def
    by (elim insertE emptyE) (simp_all add: hex_value_def)
qed

lemma unescape_escape_char:
  "unescape (escape_char c @ rest) = map_option ((#) c) (unescape rest)"
proof -
  consider "c = CHR 0x22" | "c = CHR 0x5C" | "c = CHR 0x08" | "c = CHR 0x0C" | "c = CHR 0x0A"
    | "c = CHR 0x0D" | "c = CHR 0x09"
    | "c \<notin> {CHR 0x22, CHR 0x5C, CHR 0x08, CHR 0x0C, CHR 0x0A, CHR 0x0D, CHR 0x09}" "(of_char c :: nat) < 0x20"
    | "c \<notin> {CHR 0x22, CHR 0x5C, CHR 0x08, CHR 0x0C, CHR 0x0A, CHR 0x0D, CHR 0x09}" "\<not> (of_char c :: nat) < 0x20"
    by blast
  then show ?thesis
  proof cases
    case 8
    let ?k = "of_char c :: nat"
    have esc: "escape_char c = [CHR 0x5C, CHR ''u'', CHR ''0'', CHR ''0'', hex_digit (?k div 16), hex_digit ?k]"
      using 8 by (simp add: escape_char_def)
    have z: "hex_value (CHR ''0'') = Some 0"
      by (simp add: hex_value_def)
    have hi: "?k div 16 mod 16 = ?k div 16" and small: "?k div 16 < 8"
      using 8(2) by simp_all
    have same: "char_of (16 * (?k div 16) + ?k mod 16) = c"
      by simp
    show ?thesis
      unfolding esc
      by (simp add: z hex_value_digit hi small same)
  next
    case 9
    then have "escape_char c = [c]"
      by (simp add: escape_char_def)
    with 9 show ?thesis by simp
  qed (simp_all add: escape_char_def)
qed

lemma unescape_escaped: "unescape (concat (map escape_char s)) = Some s"
  by (induction s) (simp_all add: unescape_escape_char del: unescape.simps(2))

lemma read_string_quote: "read_string (quote s) = Some s"
  by (simp add: read_string_def quote_def unescape_escaped butlast_append)

lemma quote_plain:
  assumes "\<forall>c\<in>set t. c \<noteq> CHR 0x22 \<and> c \<noteq> CHR 0x5C \<and> 0x20 \<le> (of_char c :: nat)"
  shows "quote t = [CHR 0x22] @ t @ [CHR 0x22]"
proof -
  have "escape_char c = [c]" if "c \<in> set t" for c
  proof -
    from assms that have c: "c \<noteq> CHR 0x22" "c \<noteq> CHR 0x5C" "0x20 \<le> (of_char c :: nat)" by auto
    then have "c \<noteq> CHR 0x08" "c \<noteq> CHR 0x0C" "c \<noteq> CHR 0x0A" "c \<noteq> CHR 0x0D" "c \<noteq> CHR 0x09"
      by auto
    with c show ?thesis by (simp add: escape_char_def)
  qed
  then have "concat (map escape_char t) = t"
    by (induction t) simp_all
  then show ?thesis by (simp add: quote_def)
qed

lemma stringify_json_doc:
  assumes "gap \<noteq> []"
  shows "json_doc nt gap ind v (stringify nt gap ind v)"
proof (induction v arbitrary: ind)
  case JNull
  show ?case by (simp add: doc_null)
next
  case (JBool b)
  show ?case by (cases b) (simp_all add: doc_true doc_false)
next
  case (JNumber r)
  show ?case by (simp add: doc_number)
next
  case (JString s)
  show ?case by (simp add: doc_string read_string_quote)
next
  case (JArray vs)
  have el: "json_elements nt gap i ws (map (stringify nt gap i) ws)" if "set ws \<subseteq> set vs" for ws i
    using that
  proof (induction ws)
    case Nil
    show ?case by (simp add: elements_nil)
  next
    case (Cons w ws)
    then show ?case by (simp add: elements_cons JArray.IH)
  qed
  show ?case
  proof (cases "vs = []")
    case True
    then show ?thesis by (simp add: doc_empty_array)
  next
    case False
    from doc_array [OF False el [OF subset_refl, of "ind @ gap"]]
    show ?thesis using False assms by simp
  qed
next
  case (JObject kvs)
  have mem: "json_members nt gap i ws
               (map (\<lambda>kv. quote (fst kv) @ '': '' @ stringify nt gap i (snd kv)) ws)"
    if "set ws \<subseteq> set kvs" for ws i
    using that
  proof (induction ws)
    case Nil
    show ?case by (simp add: members_nil)
  next
    case (Cons kv ws)
    obtain k v where kv: "kv = (k, v)" by (cases kv)
    with Cons.prems have "(k, v) \<in> set kvs" by simp
    then have v: "json_doc nt gap i v (stringify nt gap i v)"
      by (auto intro: JObject.IH)
    from Cons have "json_members nt gap i ws
               (map (\<lambda>kv. quote (fst kv) @ '': '' @ stringify nt gap i (snd kv)) ws)"
      by simp
    from members_cons [OF read_string_quote v this, of k] kv show ?case
      by simp
  qed
  show ?case
  proof (cases "kvs = []")
    case True
    then show ?thesis by (simp add: doc_empty_object)
  next
    case False
    from doc_object [OF False mem [OF subset_refl, of "ind @ gap"]]
    show ?thesis using False assms by simp
  qed
qed

lemma JSON_stringify_two_doc:
  "json_doc (number_text e) ''  '' [] v (JSON_stringify e v 2)"
proof -
  have "replicate (min 10 2) CHR '' '' = ''  ''"
    by (simp add: numeral_2_eq_2)
  then show ?thesis
    using stringify_json_doc [of "''  ''" "number_text e" "[]" v]
    by (simp add: JSON_stringify_def)
qed

lemma quote_token: "quote ''token'' = [CHR 0x22] @ ''token'' @ [CHR 0x22]"
  by (simp add: quote_def escape_char_def)

lemma forEach_steps_run_Cons:
  assumes "forEach_steps False (s # ss) w = (Inr (), w')"
  obtains w1 where "action s (console_log (message s) w) = (Inr (), w1)"
    and "forEach_steps False ss w1 = (Inr (), w')"
  using assms by (auto simp: Let_def split: prod.splits sum.splits)

lemma and_then_returns:
  assumes "and_then a b w = (Inr (), w')"
  obtains w1 where "a w = (Inr (), w1)" and "b w1 = (Inr (), w')"
  using assms by (auto simp: and_then_def split: prod.splits sum.splits)

lemma result_split: "fst x = Inr () \<Longrightarrow> x = (Inr (), snd x)"
  by (cases x) simp

lemma json_doc_object_lines:
  assumes "json_doc nt gap ind (JObject kvs) t" and "kvs \<noteq> []"
  shows "\<exists>ts. t = ''{'' @ newline @ (ind @ gap) @ join ('','' @ newline @ (ind @ gap)) ts @ newline @ ind @ ''}''
              \<and> json_members nt gap (ind @ gap) kvs ts"
  using assms by (cases rule: json_doc.cases) auto

text \<open>
  Claim C8.  The third step of a creation is the manifest step.  The object it writes
  has the fields of the template's manifest, but \<^verbatim>\<open>name\<close> is the project name and
  \<^verbatim>\<open>description\<close> is \<^verbatim>\<open>Generated by create-discord-bot v3.10.2.\<close>.  When the step
  returns, \<^verbatim>\<open>package.json\<close> in the target holds a JSON document of that object
  (\<open>json_doc\<close>: every string, number, boolean, \<^verbatim>\<open>null\<close>, array and object of it, at
  every depth, in the layout of two blanks per level) followed by a line break: an
  opening brace, one member per line indented by two blanks, a closing brace.  No other
  path has changed.
\<close>

theorem manifest_step:
  "message (create_steps e name dir token ! 2) = ''Updating package.json...''
   \<and> (\<forall>k. map_of (newPackage e name) k
          = (if k = ''description'' then Some (JString ''Generated by create-discord-bot v3.10.2.'')
             else if k = ''name'' then Some (JString name)
             else map_of (appPackage e) k))
   \<and> (\<forall>w w'. action (create_steps e name dir token ! 2) w = (Inr (), w') \<longrightarrow>
          (\<exists>t ts. file_content (files w') (path_join dir ''package.json'') = Some (t @ newline)
               \<and> json_doc (number_text e) ''  '' [] (JObject (newPackage e name)) t
               \<and> t = ''{'' @ newline @ ''  '' @ join ('','' @ newline @ ''  '') ts @ newline @ ''}''
               \<and> json_members (number_text e) ''  '' ''  '' (newPackage e name) ts)
          \<and> (\<forall>p. p \<noteq> path_join dir ''package.json'' \<longrightarrow> map_of (files w') p = map_of (files w) p))"
proof (intro conjI allI impI)
  show "message (create_steps e name dir token ! 2) = ''Updating package.json...''"
    by (simp add: create_steps_def)
next
  fix k
  show "map_of (newPackage e name) k
          = (if k = ''description'' then Some (JString ''Generated by create-discord-bot v3.10.2.'')
             else if k = ''name'' then Some (JString name)
             else map_of (appPackage e) k)"
    by (simp add: newPackage_def map_of_update_fs utilityNameAndVersion_def tool_name_def tool_version_def)
next
  fix w w'
  assume "action (create_steps e name dir token ! 2) w = (Inr (), w')"
  then have wr: "writeFileSync (path_join dir ''package.json'')
                  (JSON_stringify e (JObject (newPackage e name)) 2 @ newline) w = (Inr (), w')"
    by (simp add: create_steps_def)
  have ne: "newPackage e name \<noteq> []"
    by (simp add: newPackage_def)
  let ?t = "JSON_stringify e (JObject (newPackage e name)) 2"
  have doc: "json_doc (number_text e) ''  '' [] (JObject (newPackage e name)) ?t"
    by (rule JSON_stringify_two_doc)
  from json_doc_object_lines [OF doc ne] obtain ts
    where "?t = ''{'' @ newline @ ''  '' @ join ('','' @ newline @ ''  '') ts @ newline @ ''}''"
      and "json_members (number_text e) ''  '' ''  '' (newPackage e name) ts"
    by auto
  with writeFileSync_written [OF wr] doc
  show "\<exists>t ts. file_content (files w') (path_join dir ''package.json'') = Some (t @ newline)
               \<and> json_doc (number_text e) ''  '' [] (JObject (newPackage e name)) t
               \<and> t = ''{'' @ newline @ ''  '' @ join ('','' @ newline @ ''  '') ts @ newline @ ''}''
               \<and> json_members (number_text e) ''  '' ''  '' (newPackage e name) ts"
    by blast
  fix p
  assume "p \<noteq> path_join dir ''package.json''"
  with wr show "map_of (files w') p = map_of (files w) p"
    by (rule writeFileSync_elsewhere)
qed

text \<open>
  Claim C8 on a template manifest with a boolean, an array of strings and a nested
  object that holds a number, \<^verbatim>\<open>null\<close> and an empty array: the text written into the
  existing project, and that it is a document of the new object.
\<close>

theorem manifest_step_witness:
  "fst (action (create_steps manifest_env ''my-bot'' ''/home/u/my-bot'' (Some ''abc'') ! 2) existing_world) = Inr ()
   \<and> file_content
        (files (snd (action (create_steps manifest_env ''my-bot'' ''/home/u/my-bot'' (Some ''abc'') ! 2) existing_world)))
        ''/home/u/my-bot/package.json''
      = Some (''{'' @ newline
              @ ''  '' @ dq @ ''name'' @ dq @ '': '' @ dq @ ''my-bot'' @ dq @ '','' @ newline
              @ ''  '' @ dq @ ''version'' @ dq @ '': '' @ dq @ ''1.0.0'' @ dq @ '','' @ newline
              @ ''  '' @ dq @ ''private'' @ dq @ '': true,'' @ newline
              @ ''  '' @ dq @ ''keywords'' @ dq @ '': ['' @ newline
              @ ''    '' @ dq @ ''discord'' @ dq @ '','' @ newline
              @ ''    '' @ dq @ ''bot'' @ dq @ newline
              @ ''  ],'' @ newline
              @ ''  '' @ dq @ ''config'' @ dq @ '': {'' @ newline
              @ ''    '' @ dq @ ''shards'' @ dq @ '': 5,'' @ newline
              @ ''    '' @ dq @ ''owner'' @ dq @ '': null,'' @ newline
              @ ''    '' @ dq @ ''tags'' @ dq @ '': []'' @ newline
              @ ''  },'' @ newline
              @ ''  '' @ dq @ ''description'' @ dq @ '': '' @ dq
                  @ ''Generated by create-discord-bot v3.10.2.'' @ dq @ newline
              @ ''}'' @ newline)
   \<and> json_doc (number_text manifest_env) ''  '' []
        (JObject
           [(''name'', JString ''my-bot''), (''version'', JString ''1.0.0''), (''private'', JBool True),
            (''keywords'', JArray [JString ''discord'', JString ''bot'']),
            (''config'', JObject [(''shards'', JNumber 5), (''owner'', JNull), (''tags'', JArray [])]),
            (''description'', JString ''Generated by create-discord-bot v3.10.2.'')])
        (''{'' @ newline
              @ ''  '' @ dq @ ''name'' @ dq @ '': '' @ dq @ ''my-bot'' @ dq @ '','' @ newline
              @ ''  '' @ dq @ ''version'' @ dq @ '': '' @ dq @ ''1.0.0'' @ dq @ '','' @ newline
              @ ''  '' @ dq @ ''private'' @ dq @ '': true,'' @ newline
              @ ''  '' @ dq @ ''keywords'' @ dq @ '': ['' @ newline
              @ ''    '' @ dq @ ''discord'' @ dq @ '','' @ newline
              @ ''    '' @ dq @ ''bot'' @ dq @ newline
              @ ''  ],'' @ newline
              @ ''  '' @ dq @ ''config'' @ dq @ '': {'' @ newline
              @ ''    '' @ dq @ ''shards'' @ dq @ '': 5,'' @ newline
              @ ''    '' @ dq @ ''owner'' @ dq @ '': null,'' @ newline
              @ ''    '' @ dq @ ''tags'' @ dq @ '': []'' @ newline
              @ ''  },'' @ newline
              @ ''  '' @ dq @ ''description'' @ dq @ '': '' @ dq
                  @ ''Generated by create-discord-bot v3.10.2.'' @ dq @ newline
              @ ''}'')
   \<and> map_of (newPackage manifest_env ''my-bot'') ''version'' = Some (JString ''1.0.0'')"
proof -
  let ?a = "action (create_steps manifest_env ''my-bot'' ''/home/u/my-bot'' (Some ''abc'') ! 2) existing_world"
  let ?T = "''{'' @ newline
              @ ''  '' @ dq @ ''name'' @ dq @ '': '' @ dq @ ''my-bot'' @ dq @ '','' @ newline
              @ ''  '' @ dq @ ''version'' @ dq @ '': '' @ dq @ ''1.0.0'' @ dq @ '','' @ newline
              @ ''  '' @ dq @ ''private'' @ dq @ '': true,'' @ newline
              @ ''  '' @ dq @ ''keywords'' @ dq @ '': ['' @ newline
              @ ''    '' @ dq @ ''discord'' @ dq @ '','' @ newline
              @ ''    '' @ dq @ ''bot'' @ dq @ newline
              @ ''  ],'' @ newline
              @ ''  '' @ dq @ ''config'' @ dq @ '': {'' @ newline
              @ ''    '' @ dq @ ''shards'' @ dq @ '': 5,'' @ newline
              @ ''    '' @ dq @ ''owner'' @ dq @ '': null,'' @ newline
              @ ''    '' @ dq @ ''tags'' @ dq @ '': []'' @ newline
              @ ''  },'' @ newline
              @ ''  '' @ dq @ ''description'' @ dq @ '': '' @ dq
                  @ ''Generated by create-discord-bot v3.10.2.'' @ dq @ newline
              @ ''}''"
  have ok: "fst ?a = Inr ()"
    by code_simp
  have written: "file_content (files (snd ?a)) ''/home/u/my-bot/package.json'' = Some (?T @ newline)"
    by code_simp
  have p: "path_join ''/home/u/my-bot'' ''package.json'' = ''/home/u/my-bot/package.json''"
    by (simp add: path_join_def)
  have obj: "newPackage manifest_env ''my-bot''
     = [(''name'', JString ''my-bot''), (''version'', JString ''1.0.0''), (''private'', JBool True),
        (''keywords'', JArray [JString ''discord'', JString ''bot'']),
        (''config'', JObject [(''shards'', JNumber 5), (''owner'', JNull), (''tags'', JArray [])]),
        (''description'', JString ''Generated by create-discord-bot v3.10.2.'')]"
    by (simp add: newPackage_def manifest_env_def example_env_def utilityNameAndVersion_def
        tool_name_def tool_version_def)
  from manifest_step [of manifest_env "''my-bot''" "''/home/u/my-bot''" "Some ''abc''"] result_split [OF ok]
  obtain t where t: "file_content (files (snd ?a)) ''/home/u/my-bot/package.json'' = Some (t @ newline)"
    and doc: "json_doc (number_text manifest_env) ''  '' [] (JObject (newPackage manifest_env ''my-bot'')) t"
    unfolding p by blast
  from t written have "t = ?T" by simp
  with doc obj ok written show ?thesis
    by simp
qed

lemma token_text:
  "JSON_stringify e (JObject [(''token'', JString t)]) 2
     = ''{'' @ newline @ ''  '' @ dq @ ''token'' @ dq @ '': '' @ quote t @ newline @ ''}''"
  by (simp add: stringify_two_object quote_token dq_def)

text \<open>
  Claim C9.  When the first four steps of a creation have run, the ignore file lists
  \<^verbatim>\<open>node_modules/\<close> and \<^verbatim>\<open>token.json\<close>, one per line.  The token file, which is
  not the manifest, holds an object with the single member \<^verbatim>\<open>token\<close> on a line
  indented by two blanks, closed by a line break; the value is a JSON string literal
  that reads back (\<open>read_string\<close>) as the credential, character for character, and it
  is the credential itself between quotes when the credential has no quote, no
  backslash and no control character.  The manifest is still a document of the object
  the third step wrote.
\<close>

theorem ignore_file_and_token_file:
  assumes "forEach_steps False (take 4 (create_steps e name dir (Some t))) w = (Inr (), w')"
  shows "file_content (files w') (path_join dir ''.gitignore'')
           = Some (''node_modules/'' @ newline @ ''token.json'' @ newline)
         \<and> (\<exists>lit. file_content (files w') (path_join dir ''token.json'')
                    = Some (''{'' @ newline @ ''  '' @ dq @ ''token'' @ dq @ '': '' @ lit @ newline @ ''}'' @ newline)
                 \<and> read_string lit = Some t
                 \<and> ((\<forall>c\<in>set t. c \<noteq> CHR 0x22 \<and> c \<noteq> CHR 0x5C \<and> 0x20 \<le> (of_char c :: nat))
                      \<longrightarrow> lit = dq @ t @ dq)
                 \<and> json_doc (number_text e) ''  '' [] (JObject [(''token'', JString t)])
                      (''{'' @ newline @ ''  '' @ dq @ ''token'' @ dq @ '': '' @ lit @ newline @ ''}''))
         \<and> path_join dir ''token.json'' \<noteq> path_join dir ''package.json''
         \<and> (\<exists>m. file_content (files w') (path_join dir ''package.json'') = Some (m @ newline)
                 \<and> json_doc (number_text e) ''  '' [] (JObject (newPackage e name)) m)"
proof -
  let ?ignore = "path_join dir ''.gitignore''"
  let ?manifest = "path_join dir ''package.json''"
  let ?secret = "path_join dir ''token.json''"
  have steps: "take 4 (create_steps e name dir (Some t))
       = [\<lparr>message = ''Creating directory '' @ sq @ name @ sq @ ''...'', ignoreDry = None,
           action = mkdirSync dir\<rparr>,
          \<lparr>message = ''Creating boilerplate...'', ignoreDry = None,
           action = and_then (copySync (appDir e) dir)
                      (writeFileSync ?ignore (''node_modules/'' @ newline @ ''token.json'' @ newline))\<rparr>,
          \<lparr>message = ''Updating package.json...'', ignoreDry = None,
           action = writeFileSync ?manifest (JSON_stringify e (JObject (newPackage e name)) 2 @ newline)\<rparr>,
          \<lparr>message = ''Writing token.json...'', ignoreDry = None,
           action = writeFileSync ?secret (JSON_stringify e (token_object (Some t)) 2 @ newline)\<rparr>]"
    by (simp add: create_steps_def)
  from assms [unfolded steps] obtain w1 w2 w3 v
    where "and_then (copySync (appDir e) dir)
             (writeFileSync ?ignore (''node_modules/'' @ newline @ ''token.json'' @ newline)) w1 = (Inr (), w2)"
      and s3: "writeFileSync ?manifest (JSON_stringify e (JObject (newPackage e name)) 2 @ newline)
                 (console_log ''Updating package.json...'' w2) = (Inr (), w3)"
      and s4: "writeFileSync ?secret (JSON_stringify e (token_object (Some t)) 2 @ newline)
                 (console_log ''Writing token.json...'' w3) = (Inr (), v)"
      and "forEach_steps False [] v = (Inr (), w')"
    by (elim forEach_steps_run_Cons) simp
  then obtain u where s2: "writeFileSync ?ignore (''node_modules/'' @ newline @ ''token.json'' @ newline) u
                             = (Inr (), w2)"
    and v: "v = w'"
    by (elim and_then_returns) simp
  have f2: "file_content (files w2) ?ignore = Some (''node_modules/'' @ newline @ ''token.json'' @ newline)"
    using s2 by (rule writeFileSync_written)
  have f3: "file_content (files w3) ?manifest = Some (JSON_stringify e (JObject (newPackage e name)) 2 @ newline)"
    using s3 by (rule writeFileSync_written)
  have f4: "file_content (files w') ?secret = Some (JSON_stringify e (token_object (Some t)) 2 @ newline)"
    using s4 [unfolded v] by (rule writeFileSync_written)
  have k3: "map_of (files w3) ?ignore = map_of (files w2) ?ignore"
    using writeFileSync_elsewhere [OF s3, of ?ignore] by (simp add: path_join_inject console_log_def)
  have k4: "map_of (files w') ?ignore = map_of (files w3) ?ignore"
    "map_of (files w') ?manifest = map_of (files w3) ?manifest"
    using writeFileSync_elsewhere [OF s4 [unfolded v], of ?ignore]
      writeFileSync_elsewhere [OF s4 [unfolded v], of ?manifest]
    by (simp_all add: path_join_inject console_log_def)
  have ignore: "file_content (files w') ?ignore = Some (''node_modules/'' @ newline @ ''token.json'' @ newline)"
    using f2 k3 k4 by (simp add: file_content_def)
  have manifest: "file_content (files w') ?manifest
                    = Some (JSON_stringify e (JObject (newPackage e name)) 2 @ newline)"
    using f3 k4 by (simp add: file_content_def)
  have doc: "json_doc (number_text e) ''  '' [] (JObject [(''token'', JString t)])
               (''{'' @ newline @ ''  '' @ dq @ ''token'' @ dq @ '': '' @ quote t @ newline @ ''}'')"
    using JSON_stringify_two_doc [of e "token_object (Some t)"] by (simp add: token_text)
  have secret: "\<exists>lit. file_content (files w') ?secret
                    = Some (''{'' @ newline @ ''  '' @ dq @ ''token'' @ dq @ '': '' @ lit @ newline @ ''}'' @ newline)
                 \<and> read_string lit = Some t
                 \<and> ((\<forall>c\<in>set t. c \<noteq> CHR 0x22 \<and> c \<noteq> CHR 0x5C \<and> 0x20 \<le> (of_char c :: nat))
                      \<longrightarrow> lit = dq @ t @ dq)
                 \<and> json_doc (number_text e) ''  '' [] (JObject [(''token'', JString t)])
                      (''{'' @ newline @ ''  '' @ dq @ ''token'' @ dq @ '': '' @ lit @ newline @ ''}'')"
  proof (intro exI conjI impI)
    show "file_content (files w') ?secret
            = Some (''{'' @ newline @ ''  '' @ dq @ ''token'' @ dq @ '': '' @ quote t @ newline @ ''}'' @ newline)"
      using f4 by (simp add: token_text)
    show "read_string (quote t) = Some t"
      by (rule read_string_quote)
    show "quote t = dq @ t @ dq"
      if "\<forall>c\<in>set t. c \<noteq> CHR 0x22 \<and> c \<noteq> CHR 0x5C \<and> 0x20 \<le> (of_char c :: nat)"
      using quote_plain [OF that] by (simp add: dq_def)
    show "json_doc (number_text e) ''  '' [] (JObject [(''token'', JString t)])
            (''{'' @ newline @ ''  '' @ dq @ ''token'' @ dq @ '': '' @ quote t @ newline @ ''}'')"
      by (rule doc)
  qed
  have kept: "\<exists>m. file_content (files w') ?manifest = Some (m @ newline)
                 \<and> json_doc (number_text e) ''  '' [] (JObject (newPackage e name)) m"
    using manifest JSON_stringify_two_doc by blast
  from ignore secret kept show ?thesis
    by (simp add: path_join_inject)
qed

text \<open>
  Claim C9 on two credentials: \<^verbatim>\<open>a"b\c\<close>, written with its quote and its backslash
  escaped, and \<^verbatim>\<open>abc\<close>, written as it is.
\<close>

theorem ignore_file_and_token_file_witness:
  "fst (forEach_steps False (take 4 (create_steps example_env ''my-bot'' ''/home/u/my-bot'' (Some tricky_token)))
          example_world) = Inr ()
   \<and> file_content
        (files (snd (forEach_steps False
           (take 4 (create_steps example_env ''my-bot'' ''/home/u/my-bot'' (Some tricky_token))) example_world)))
        ''/home/u/my-bot/.gitignore''
      = Some (''node_modules/'' @ newline @ ''token.json'' @ newline)
   \<and> file_content
        (files (snd (forEach_steps False
           (take 4 (create_steps example_env ''my-bot'' ''/home/u/my-bot'' (Some tricky_token))) example_world)))
        ''/home/u/my-bot/token.json''
      = Some (''{'' @ newline @ ''  '' @ dq @ ''token'' @ dq @ '': ''
               @ dq @ ''a'' @ [CHR 0x5C, CHR 0x22] @ ''b'' @ [CHR 0x5C, CHR 0x5C] @ ''c'' @ dq
               @ newline @ ''}'' @ newline)
   \<and> read_string (dq @ ''a'' @ [CHR 0x5C, CHR 0x22] @ ''b'' @ [CHR 0x5C, CHR 0x5C] @ ''c'' @ dq)
      = Some (''a'' @ [CHR 0x22] @ ''b'' @ [CHR 0x5C] @ ''c'')
   \<and> json_doc (number_text example_env) ''  '' []
        (JObject [(''token'', JString (''a'' @ [CHR 0x22] @ ''b'' @ [CHR 0x5C] @ ''c''))])
        (''{'' @ newline @ ''  '' @ dq @ ''token'' @ dq @ '': ''
               @ dq @ ''a'' @ [CHR 0x5C, CHR 0x22] @ ''b'' @ [CHR 0x5C, CHR 0x5C] @ ''c'' @ dq
               @ newline @ ''}'')
   \<and> fst (forEach_steps False (take 4 (create_steps example_env ''my-bot'' ''/home/u/my-bot'' (Some ''abc'')))
          example_world) = Inr ()
   \<and> file_content
        (files (snd (forEach_steps False
           (take 4 (create_steps example_env ''my-bot'' ''/home/u/my-bot'' (Some ''abc''))) example_world)))
        ''/home/u/my-bot/token.json''
      = Some (''{'' @ newline @ ''  '' @ dq @ ''token'' @ dq @ '': '' @ dq @ ''abc'' @ dq @ newline @ ''}'' @ newline)"
proof -
  let ?r = "forEach_steps False (take 4 (create_steps example_env ''my-bot'' ''/home/u/my-bot'' (Some tricky_token)))
              example_world"
  let ?s = "forEach_steps False (take 4 (create_steps example_env ''my-bot'' ''/home/u/my-bot'' (Some ''abc'')))
              example_world"
  let ?lit = "dq @ ''a'' @ [CHR 0x5C, CHR 0x22] @ ''b'' @ [CHR 0x5C, CHR 0x5C] @ ''c'' @ dq"
  have ok: "fst ?r = Inr ()"
    by code_simp
  have ok': "fst ?s = Inr ()"
    by code_simp
  have written: "file_content (files (snd ?r)) ''/home/u/my-bot/token.json''
      = Some (''{'' @ newline @ ''  '' @ dq @ ''token'' @ dq @ '': '' @ ?lit @ newline @ ''}'' @ newline)"
    by code_simp
  have p: "path_join ''/home/u/my-bot'' ''.gitignore'' = ''/home/u/my-bot/.gitignore''"
    "path_join ''/home/u/my-bot'' ''token.json'' = ''/home/u/my-bot/token.json''"
    by (simp_all add: path_join_def)
  have plain: "\<forall>c\<in>set ''abc''. c \<noteq> CHR 0x22 \<and> c \<noteq> CHR 0x5C \<and> 0x20 \<le> (of_char c :: nat)"
    by simp
  have t: "tricky_token = ''a'' @ [CHR 0x22] @ ''b'' @ [CHR 0x5C] @ ''c''"
    by (simp add: tricky_token_def)
  from ignore_file_and_token_file [OF result_split [OF ok]]
  obtain lit where ignore: "file_content (files (snd ?r)) ''/home/u/my-bot/.gitignore''
                     = Some (''node_modules/'' @ newline @ ''token.json'' @ newline)"
    and lit: "file_content (files (snd ?r)) ''/home/u/my-bot/token.json''
                = Some (''{'' @ newline @ ''  '' @ dq @ ''token'' @ dq @ '': '' @ lit @ newline @ ''}'' @ newline)"
    and rd: "read_string lit = Some tricky_token"
    and doc: "json_doc (number_text example_env) ''  '' [] (JObject [(''token'', JString tricky_token)])
                (''{'' @ newline @ ''  '' @ dq @ ''token'' @ dq @ '': '' @ lit @ newline @ ''}'')"
    unfolding p by blast
  from lit written have "lit = ?lit"
    by (simp add: dq_def newline_def)
  with rd doc have a: "read_string ?lit = Some tricky_token"
    "json_doc (number_text example_env) ''  '' [] (JObject [(''token'', JString tricky_token)])
                (''{'' @ newline @ ''  '' @ dq @ ''token'' @ dq @ '': '' @ ?lit @ newline @ ''}'')"
    by simp_all
  from ignore_file_and_token_file [OF result_split [OF ok']] plain
  have b: "file_content (files (snd ?s)) ''/home/u/my-bot/token.json''
      = Some (''{'' @ newline @ ''  '' @ dq @ ''token'' @ dq @ '': '' @ dq @ ''abc'' @ dq @ newline @ ''}'' @ newline)"
    unfolding p by auto
  from ok ok' ignore written a b show ?thesis
    unfolding t by simp
qed

section \<open>The update step\<close>




























end
